theory Spec2Isabelle
  imports Complex_Main "HOL-Library.AList"
begin

section \<open>Data model of \<open>globdata.py\<close>\<close>

text \<open>
  The module reads netCDF files through \<open>netCDF4\<close> and keeps their content in \<open>pandas\<close>
  tables. Both libraries are outside the repository; the part of their behaviour that the
  two classes \<open>DataSet\<close> and \<open>DataLoader\<close> rely on is written out below.

  Grid and coordinate values are numbers of some numpy dtype in the files. The module only
  compares them (\<open>==\<close>, \<open>\<le>\<close>, \<open>\<ge>\<close>) and never computes with them, so a stored number is
  modelled by the \<open>real\<close> it denotes; a missing table entry produced by \<open>pd.concat\<close> is the
  separate cell \<open>NaN\<close>. What depends on the dtype is not fixed by the model: the comparison
  of a column with a query value is an argument of the model, and the array that
  \<open>to_numpy\<close> makes from a frame is kept as that frame.
\<close>

text \<open>The Python exceptions that the module can raise or let through.\<close>

datatype error =
    NameError            \<comment> \<open>\<open>raise NameError('IOError')\<close> in \<open>DataSet.__init__\<close>\<close>
  | AttributeError       \<comment> \<open>a variable without \<open>long_name\<close>; \<open>None.loc\<close> after \<open>release\<close>\<close>
  | IndexError           \<comment> \<open>\<open>ds[name]\<close> for a name that is not in the file\<close>
  | ValueError           \<comment> \<open>\<open>pd.Series\<close> length mismatch; \<open>reset_index\<close> name clash\<close>
  | KeyError             \<comment> \<open>a missing dictionary key or table column\<close>
  | TypeError            \<comment> \<open>\<open>from_product\<close> on a zero-dimensional array\<close>
  | NotImplementedError  \<comment> \<open>\<open>from_product\<close> on an array of two or more dimensions\<close>

subsection \<open>The netCDF file as \<open>netCDF4\<close> presents it\<close>

text \<open>An n-dimensional numpy array, and \<open>ndarray.flatten()\<close> (row-major order).\<close>

datatype ndarray = Scalar real | Array "ndarray list"

fun flatten :: "ndarray \<Rightarrow> real list" where
  "flatten (Scalar x) = [x]"
| "flatten (Array xs) = concat (map flatten xs)"

record nc_Dimension =
  dim_name :: string
  dim_size :: nat

record nc_Variable =
  var_name :: string
  long_name :: "string option"   \<comment> \<open>the attribute may be absent\<close>
  var_data :: ndarray

record nc_Dataset =
  dimensions :: "nc_Dimension list"
  variables :: "nc_Variable list"

text \<open>
  The file system: \<open>nc.Dataset(filename)\<close> either gives the content of the file or raises
  \<open>IOError\<close> (file missing, unreadable or not a netCDF file), which is \<open>None\<close> here.
\<close>

type_synonym filesystem = "string \<Rightarrow> nc_Dataset option"

text \<open>\<open>ds[name]\<close>: the variable of that name; \<open>netCDF4\<close> raises \<open>IndexError\<close> when there is none.\<close>

definition ds_getitem :: "nc_Dataset \<Rightarrow> string \<Rightarrow> error + nc_Variable" where
  "ds_getitem ds n =
     (case find (\<lambda>v. var_name v = n) (variables ds) of
        None \<Rightarrow> Inl IndexError
      | Some v \<Rightarrow> Inr v)"

subsection \<open>The part of \<open>pandas\<close> that the module uses\<close>

datatype cell = Num real | Str string | NaN

text \<open>
  A \<open>DataFrame\<close>: the column labels and the rows in their order. Index labels are not
  modelled; the position of a row in \<open>rows\<close> is its position in the frame.
\<close>

record dataframe =
  columns :: "string list"
  rows :: "cell list list"

text \<open>\<open>pd.DataFrame()\<close>\<close>

definition empty_df :: dataframe where
  "empty_df = \<lparr>columns = [], rows = []\<rparr>"

text \<open>The cell of row \<open>r\<close> under the (first) column labelled \<open>c\<close>.\<close>

definition cell_of :: "string list \<Rightarrow> cell list \<Rightarrow> string \<Rightarrow> cell" where
  "cell_of cols r c = (case map_of (zip cols r) c of Some v \<Rightarrow> v | None \<Rightarrow> NaN)"

text \<open>
  \<open>df.loc[df.loc[:, c] == x]\<close>: \<open>KeyError\<close> without a column \<open>c\<close>, else the rows that match.
  numpy makes the comparison \<open>column == x\<close> in the dtype of the column, so that a stored
  value can be found equal to a query that is another number (a \<open>float32\<close> column against
  the Python float \<open>0.1\<close>; an \<open>int64\<close> column against a float above \<open>2**53\<close>). The
  comparison is therefore an argument: \<open>eq y x\<close> says that the stored number \<open>y\<close> is found
  equal to the query \<open>x\<close>. A cell that holds no number matches nothing.
\<close>

definition cell_matches :: "(real \<Rightarrow> real \<Rightarrow> bool) \<Rightarrow> cell \<Rightarrow> real \<Rightarrow> bool" where
  "cell_matches eq c x = (case c of Num y \<Rightarrow> eq y x | Str s \<Rightarrow> False | NaN \<Rightarrow> False)"

definition loc_eq :: "(real \<Rightarrow> real \<Rightarrow> bool) \<Rightarrow> dataframe \<Rightarrow> string \<Rightarrow> real \<Rightarrow> error + dataframe" where
  "loc_eq eq t c x =
     (if c \<in> set (columns t)
      then Inr (t\<lparr>rows := filter (\<lambda>r. cell_matches eq (cell_of (columns t) r c) x) (rows t)\<rparr>)
      else Inl KeyError)"

text \<open>\<open>df[[c1, ..., cn]]\<close>: \<open>KeyError\<close> when a label is not a column, else those columns.\<close>

definition select_columns :: "dataframe \<Rightarrow> string list \<Rightarrow> error + dataframe" where
  "select_columns t cs =
     (if set cs \<subseteq> set (columns t)
      then Inr \<lparr>columns = cs, rows = map (\<lambda>r. map (cell_of (columns t) r) cs) (rows t)\<rparr>
      else Inl KeyError)"

text \<open>\<open>df[c] = v\<close> for a scalar \<open>v\<close>: overwrites the column(s) labelled \<open>c\<close>, or appends one.\<close>

definition set_column :: "dataframe \<Rightarrow> string \<Rightarrow> cell \<Rightarrow> dataframe" where
  "set_column t c v =
     (if c \<in> set (columns t)
      then t\<lparr>rows := map (\<lambda>r. map2 (\<lambda>c' x. if c' = c then v else x) (columns t) r) (rows t)\<rparr>
      else \<lparr>columns = columns t @ [c], rows = map (\<lambda>r. r @ [v]) (rows t)\<rparr>)"

text \<open>
  \<open>pd.concat([a, b])\<close>: the rows of \<open>a\<close>, then the rows of \<open>b\<close>. Frames with the same
  column labels are stacked as they are, and a frame without rows and columns adds
  nothing. Otherwise the result has the labels of \<open>a\<close> followed by the new labels of \<open>b\<close>,
  and every row is filled with \<open>NaN\<close> under the labels its frame does not have.
\<close>

definition reindex_row :: "string list \<Rightarrow> string list \<Rightarrow> cell list \<Rightarrow> cell list" where
  "reindex_row cols cols' r = map (cell_of cols r) cols'"

definition pd_concat :: "dataframe \<Rightarrow> dataframe \<Rightarrow> dataframe" where
  "pd_concat a b =
     (if columns a = columns b then \<lparr>columns = columns a, rows = rows a @ rows b\<rparr>
      else if columns a = [] \<and> rows a = [] then b
      else if columns b = [] \<and> rows b = [] then a
      else let cols = columns a @ filter (\<lambda>c. c \<notin> set (columns a)) (columns b)
           in \<lparr>columns = cols,
               rows = map (reindex_row (columns a) cols) (rows a)
                    @ map (reindex_row (columns b) cols) (rows b)\<rparr>)"

text \<open>
  The frames that a query loop stacks: all with the column labels \<open>C\<close>, or
  \<open>pd.DataFrame()\<close>. On these \<open>pd.concat\<close> only appends rows.
\<close>

definition stackable :: "string list \<Rightarrow> dataframe \<Rightarrow> bool" where
  "stackable C t \<longleftrightarrow> columns t = C \<or> t = empty_df"

text \<open>
  \<open>pd.MultiIndex.from_product([time_array, lat_array, lon_array])\<close> wants one-dimensional
  arrays: it raises \<open>TypeError\<close> on a zero-dimensional one and \<open>NotImplementedError\<close> on one
  of more dimensions.
\<close>

fun scalar_value :: "ndarray \<Rightarrow> real option" where
  "scalar_value (Scalar x) = Some x"
| "scalar_value (Array xs) = None"

fun axis_values :: "ndarray \<Rightarrow> error + real list" where
  "axis_values (Scalar x) = Inl TypeError"
| "axis_values (Array xs) =
     (case those (map scalar_value xs) of
        Some vs \<Rightarrow> Inr vs
      | None \<Rightarrow> Inl NotImplementedError)"

definition from_product :: "real list \<Rightarrow> real list \<Rightarrow> real list \<Rightarrow> real list list" where
  "from_product ts las los = [[t, la, lo]. t \<leftarrow> ts, la \<leftarrow> las, lo \<leftarrow> los]"

section \<open>\<open>class DataSet\<close>\<close>

record DataSet =
  dim_dict :: "(string \<times> nat) list"
  var_dict :: "(string \<times> string) list"
  df :: "dataframe option"             \<comment> \<open>\<open>None\<close> after \<open>release\<close>\<close>
  lat_set :: "real set"
  lon_set :: "real set"

text \<open>
  The two dictionaries of \<open>__init__\<close>. A Python \<open>dict\<close> keeps its keys in insertion order
  and an assignment to a key that is present keeps its place: \<open>AList.update\<close>.
  Reading \<open>var.long_name\<close> raises \<open>AttributeError\<close> when the variable has no such attribute.
\<close>

definition read_dim_dict :: "nc_Dimension list \<Rightarrow> (string \<times> nat) list" where
  "read_dim_dict dims = fold (\<lambda>d m. AList.update (dim_name d) (dim_size d) m) dims []"

fun read_var_dict :: "nc_Variable list \<Rightarrow> (string \<times> string) list \<Rightarrow> error + (string \<times> string) list" where
  "read_var_dict [] m = Inr m"
| "read_var_dict (v # vs) m =
     (case long_name v of
        None \<Rightarrow> Inl AttributeError
      | Some l \<Rightarrow> read_var_dict vs (AList.update l (var_name v) m))"

text \<open>
  \<open>ds[self._var_dict[k]][:].data.flatten()\<close>: the variable stored under the long name
  \<open>k\<close>, and its values in row-major order.
\<close>

definition variable_of :: "nc_Dataset \<Rightarrow> (string \<times> string) list \<Rightarrow> string \<Rightarrow> error + nc_Variable" where
  "variable_of ds vd k =
     (case map_of vd k of
        None \<Rightarrow> Inl KeyError
      | Some short \<Rightarrow> ds_getitem ds short)"

definition variable_values :: "nc_Dataset \<Rightarrow> (string \<times> string) list \<Rightarrow> string \<Rightarrow> error + real list" where
  "variable_values ds vd k =
     (case variable_of ds vd k of
        Inl e \<Rightarrow> Inl e
      | Inr v \<Rightarrow> Inr (flatten (var_data v)))"

text \<open>
  The loop of \<open>_convert2dataframe\<close> over the keys of the variables dictionary. The frame
  under construction has one row per entry of the index \<open>mi\<close> and the data columns added
  so far; \<open>pd.Series(fl, index=multi_index)\<close> raises \<open>ValueError\<close> when the lengths differ.
\<close>

fun add_columns ::
  "nc_Dataset \<Rightarrow> (string \<times> string) list \<Rightarrow> real list list \<Rightarrow> string list \<Rightarrow> dataframe
     \<Rightarrow> error + dataframe" where
  "add_columns ds vd mi [] t = Inr t"
| "add_columns ds vd mi (k # ks) t =
     (if k \<notin> {''longitude'', ''latitude'', ''time''}
      then (case variable_values ds vd k of
              Inl e \<Rightarrow> Inl e
            | Inr fl \<Rightarrow>
               (if length fl \<noteq> length mi then Inl ValueError
                else add_columns ds vd mi ks
                       \<lparr>columns = columns t @ [k], rows = map2 (\<lambda>r x. r @ [Num x]) (rows t) fl\<rparr>))
      else add_columns ds vd mi ks t)"

text \<open>
  \<open>df.reset_index(inplace=True)\<close> puts the three index levels in front of the data
  columns; it raises \<open>ValueError\<close> when a data column already has one of their names.
\<close>

definition reset_index :: "real list list \<Rightarrow> dataframe \<Rightarrow> error + dataframe" where
  "reset_index mi t =
     (if set [''time'', ''lat'', ''lon''] \<inter> set (columns t) \<noteq> {} then Inl ValueError
      else Inr \<lparr>columns = [''time'', ''lat'', ''lon''] @ columns t,
                rows = map2 (\<lambda>i r. map Num i @ r) mi (rows t)\<rparr>)"

definition convert2dataframe :: "nc_Dataset \<Rightarrow> (string \<times> string) list \<Rightarrow> error + dataframe" where
  "convert2dataframe ds vd =
     (case ds_getitem ds ''lon'' of Inl e \<Rightarrow> Inl e | Inr lonv \<Rightarrow>
     (case ds_getitem ds ''lat'' of Inl e \<Rightarrow> Inl e | Inr latv \<Rightarrow>
     (case ds_getitem ds ''time'' of Inl e \<Rightarrow> Inl e | Inr timev \<Rightarrow>
     (case axis_values (var_data timev) of Inl e \<Rightarrow> Inl e | Inr time_array \<Rightarrow>
     (case axis_values (var_data latv) of Inl e \<Rightarrow> Inl e | Inr lat_array \<Rightarrow>
     (case axis_values (var_data lonv) of Inl e \<Rightarrow> Inl e | Inr lon_array \<Rightarrow>
        (let multi_index = from_product time_array lat_array lon_array
         in (case add_columns ds vd multi_index (map fst vd)
                    \<lparr>columns = [], rows = map (\<lambda>_. []) multi_index\<rparr> of
               Inl e \<Rightarrow> Inl e
             | Inr t \<Rightarrow> reset_index multi_index t))))))))"

text \<open>The numbers in a column, for \<open>_create_coords\<close>.\<close>

definition column_values :: "dataframe \<Rightarrow> string \<Rightarrow> real list" where
  "column_values t c = [x. Num x \<leftarrow> map (\<lambda>r. cell_of (columns t) r c) (rows t)]"

definition create_coords :: "dataframe \<Rightarrow> real set \<times> real set" where
  "create_coords dfl =
     (set (filter (\<lambda>x. x \<ge> -90) (filter (\<lambda>x. x \<le> 90) (column_values dfl ''lat''))),
      set (filter (\<lambda>x. x \<ge> -180) (filter (\<lambda>x. x \<le> 180) (column_values dfl ''lon''))))"

text \<open>
  \<open>DataSet(filename)\<close>: the new object, or the exception that leaves the constructor, in
  which case the caller gets no object.
\<close>

definition DataSet_init :: "filesystem \<Rightarrow> string \<Rightarrow> error + DataSet" where
  "DataSet_init fs filename =
     (case fs filename of
        None \<Rightarrow> Inl NameError
      | Some ds \<Rightarrow>
         (case read_var_dict (variables ds) [] of
            Inl e \<Rightarrow> Inl e
          | Inr vd \<Rightarrow>
             (case convert2dataframe ds vd of
                Inl e \<Rightarrow> Inl e
              | Inr t \<Rightarrow>
                 Inr \<lparr>dim_dict = read_dim_dict (dimensions ds), var_dict = vd, df = Some t,
                      lat_set = fst (create_coords t), lon_set = snd (create_coords t)\<rparr>)))"

definition get_dim_dict :: "DataSet \<Rightarrow> (string \<times> nat) list" where
  "get_dim_dict self = dim_dict self"

definition get_var_dict :: "DataSet \<Rightarrow> (string \<times> string) list" where
  "get_var_dict self = var_dict self"

definition get_coord_set :: "DataSet \<Rightarrow> real set \<times> real set" where
  "get_coord_set self = (lat_set self, lon_set self)"

text \<open>
  \<open>coord_timeseries\<close>. With valid coordinates the table is read: \<open>self.df.loc\<close> raises
  \<open>AttributeError\<close> when \<open>self.df\<close> is \<open>None\<close>. The two comparisons are reached only when
  \<open>lat\<close> and \<open>lon\<close> have been found in the sets of the values of their columns (Python's
  \<open>in\<close>, which compares the numbers themselves), so each query is a stored value of its
  column and comparing in the dtype of the column is comparing the numbers.
\<close>

definition coord_timeseries :: "DataSet \<Rightarrow> real \<Rightarrow> real \<Rightarrow> string list \<Rightarrow> error + dataframe" where
  "coord_timeseries self lat lon var_long =
     (if lon \<in> lon_set self \<and> lat \<in> lat_set self
      then (case df self of
              None \<Rightarrow> Inl AttributeError
            | Some dfl \<Rightarrow>
               (case loc_eq (=) dfl ''lat'' lat of Inl e \<Rightarrow> Inl e | Inr t1 \<Rightarrow>
               (case loc_eq (=) t1 ''lon'' lon of Inl e \<Rightarrow> Inl e | Inr t2 \<Rightarrow>
                  select_columns t2 ([''time''] @ var_long))))
      else Inr empty_df)"

text \<open>
  \<open>time_slice\<close>. Here the query \<open>time\<close> is compared as it comes, in the dtype of the \<open>time\<close>
  column of the table: \<open>np_eq self y time\<close> is numpy's \<open>==\<close> between a value \<open>y\<close> of that column
  and \<open>time\<close>.
\<close>

definition time_slice ::
  "(DataSet \<Rightarrow> real \<Rightarrow> real \<Rightarrow> bool) \<Rightarrow> DataSet \<Rightarrow> real \<Rightarrow> string \<Rightarrow> error + dataframe" where
  "time_slice np_eq self time var_long =
     (case df self of
        None \<Rightarrow> Inl AttributeError
      | Some dfl \<Rightarrow>
         (case loc_eq (np_eq self) dfl ''time'' time of Inl e \<Rightarrow> Inl e | Inr t1 \<Rightarrow>
            select_columns t1 [''lat'', ''lon'', var_long]))"

definition release :: "DataSet \<Rightarrow> DataSet" where
  "release self = self\<lparr>df := None\<rparr>"

section \<open>\<open>class DataLoader\<close>\<close>

text \<open>
  The object has one field, the cache \<open>ds_dict\<close> from file name to \<open>DataSet\<close>, a Python
  \<open>dict\<close>. The second field below is not in the class: \<open>load_log\<close> lists the file names for
  which the constructor \<open>DataSet(file_name)\<close> has been called, in order, so that the number
  of loads can be stated.
\<close>

record DataLoader =
  ds_dict :: "(string \<times> DataSet) list"
  load_log :: "string list"

definition DataLoader_init :: DataLoader where
  "DataLoader_init = \<lparr>ds_dict = [], load_log = []\<rparr>"

text \<open>
  \<open>_load_dataset\<close>: the bare \<open>except:\<close> catches whatever the constructor raises, prints a
  message and returns normally, with the cache as it was.
\<close>

definition load_dataset :: "filesystem \<Rightarrow> string \<Rightarrow> DataLoader \<Rightarrow> DataLoader" where
  "load_dataset fs file_name self =
     (case DataSet_init fs file_name of
        Inr ds \<Rightarrow> self\<lparr>ds_dict := AList.update file_name ds (ds_dict self),
                       load_log := load_log self @ [file_name]\<rparr>
      | Inl e \<Rightarrow> self\<lparr>load_log := load_log self @ [file_name]\<rparr>)"

text \<open>
  The two blocks of the loop bodies that touch the cache: "load dataset if not in cache"
  before the query, and "release memory occupied with dataset, if not cached" after it.
\<close>

definition load_if_absent :: "filesystem \<Rightarrow> string \<Rightarrow> DataLoader \<Rightarrow> DataLoader" where
  "load_if_absent fs current_file self =
     (if current_file \<notin> set (map fst (ds_dict self))
      then load_dataset fs current_file self
      else self)"

definition release_unless :: "bool \<Rightarrow> string \<Rightarrow> DataLoader \<Rightarrow> DataLoader" where
  "release_unless cache current_file self =
     (if \<not> cache
      then self\<lparr>ds_dict := AList.delete current_file (ds_dict self)\<rparr>
      else self)"

text \<open>
  The result of a query: the value returned or the exception raised, and the loader as the
  call leaves it (what was put in or taken out of the cache stays so when the call raises).
\<close>

text \<open>
  \<open>Numpy t\<close> is the array \<open>t.to_numpy()\<close>: the rows of \<open>t\<close> in their order, without the
  column labels, the cells cast to the common dtype of the columns.
\<close>

datatype query_result = Frame dataframe | Numpy dataframe

text \<open>
  The loop of \<open>time_series\<close> over \<open>files_list\<close>, from the frame \<open>res_df\<close> accumulated so far.
  \<open>self.ds_dict[current_file]\<close> raises \<open>KeyError\<close> when the file is not in the cache.
\<close>

fun time_series_loop ::
  "filesystem \<Rightarrow> real \<Rightarrow> real \<Rightarrow> string list \<Rightarrow> bool \<Rightarrow> string list \<Rightarrow> dataframe \<Rightarrow> DataLoader
     \<Rightarrow> (error + dataframe) \<times> DataLoader" where
  "time_series_loop fs lat lon var_long cache [] res_df self = (Inr res_df, self)"
| "time_series_loop fs lat lon var_long cache (current_file # files) res_df self =
     (let self1 = load_if_absent fs current_file self
      in case map_of (ds_dict self1) current_file of
           None \<Rightarrow> (Inl KeyError, self1)
         | Some d \<Rightarrow>
            (case coord_timeseries d lat lon var_long of
               Inl e \<Rightarrow> (Inl e, self1)
             | Inr curr_df \<Rightarrow>
                time_series_loop fs lat lon var_long cache files (pd_concat res_df curr_df)
                  (release_unless cache current_file self1)))"

definition time_series ::
  "filesystem \<Rightarrow> DataLoader \<Rightarrow> string list \<Rightarrow> real \<Rightarrow> real \<Rightarrow> string list \<Rightarrow> bool \<Rightarrow> bool
     \<Rightarrow> (error + query_result) \<times> DataLoader" where
  "time_series fs self files_list lat lon var_long cache as_numpy =
     (case time_series_loop fs lat lon var_long cache files_list empty_df self of
        (Inl e, self') \<Rightarrow> (Inl e, self')
      | (Inr res_df, self') \<Rightarrow>
          (Inr (if as_numpy then Numpy res_df else Frame res_df), self'))"

text \<open>The loop of \<open>time_slice_daily\<close>; \<open>np_eq\<close> is the comparison that \<open>time_slice\<close> makes.\<close>

fun time_slice_daily_loop ::
  "(DataSet \<Rightarrow> real \<Rightarrow> real \<Rightarrow> bool) \<Rightarrow> filesystem \<Rightarrow> real \<Rightarrow> string \<Rightarrow> bool \<Rightarrow> string list \<Rightarrow> dataframe \<Rightarrow> DataLoader
     \<Rightarrow> (error + dataframe) \<times> DataLoader" where
  "time_slice_daily_loop np_eq fs time var_long cache [] res_df self = (Inr res_df, self)"
| "time_slice_daily_loop np_eq fs time var_long cache (current_file # files) res_df self =
     (let self1 = load_if_absent fs current_file self
      in case map_of (ds_dict self1) current_file of
           None \<Rightarrow> (Inl KeyError, self1)
         | Some d \<Rightarrow>
            (case time_slice np_eq d time var_long of
               Inl e \<Rightarrow> (Inl e, self1)
             | Inr curr_df \<Rightarrow>
                time_slice_daily_loop np_eq fs time var_long cache files
                  (pd_concat res_df (set_column curr_df ''FileName'' (Str current_file)))
                  (release_unless cache current_file self1)))"

definition time_slice_daily ::
  "(DataSet \<Rightarrow> real \<Rightarrow> real \<Rightarrow> bool) \<Rightarrow> filesystem \<Rightarrow> DataLoader \<Rightarrow> string list \<Rightarrow> real \<Rightarrow> string \<Rightarrow> bool
     \<Rightarrow> (error + dataframe) \<times> DataLoader" where
  "time_slice_daily np_eq fs self files_list time var_long cache =
     time_slice_daily_loop np_eq fs time var_long cache files_list empty_df self"

section \<open>Notions for the statements\<close>

text \<open>
  These are not functions of the module; they name what the statements below talk about.

  A coordinate axis of a file: the values of the one-dimensional variable \<open>time\<close>, \<open>lat\<close>
  or \<open>lon\<close>, as \<open>_convert2dataframe\<close> reads them.
\<close>

definition coordinate_axis :: "nc_Dataset \<Rightarrow> string \<Rightarrow> error + real list" where
  "coordinate_axis ds n =
     (case ds_getitem ds n of
        Inl e \<Rightarrow> Inl e
      | Inr v \<Rightarrow> axis_values (var_data v))"

text \<open>
  The long names that get a data column: the keys of the variables dictionary, in its
  order, that pass the test \<open>k not in {'longitude', 'latitude', 'time'}\<close>.
\<close>

definition data_columns :: "(string \<times> string) list \<Rightarrow> string list" where
  "data_columns vd = filter (\<lambda>k. k \<notin> {''longitude'', ''latitude'', ''time''}) (map fst vd)"

text \<open>The flattened values of the variable with long name \<open>k\<close> (empty when there is none).\<close>

definition column_data :: "nc_Dataset \<Rightarrow> (string \<times> string) list \<Rightarrow> string \<Rightarrow> real list" where
  "column_data ds vd k = (case variable_values ds vd k of Inl e \<Rightarrow> [] | Inr fl \<Rightarrow> fl)"

text \<open>
  numpy's \<open>a.shape == (n1, ..., nk)\<close> and \<open>a[i1, ..., ik]\<close>: the shape of an array and the
  value in one of its cells.
\<close>

fun has_shape :: "ndarray \<Rightarrow> nat list \<Rightarrow> bool" where
  "has_shape (Scalar x) [] = True"
| "has_shape (Array xs) (n # ns) = (length xs = n \<and> list_all (\<lambda>a. has_shape a ns) xs)"
| "has_shape (Scalar x) (n # ns) = False"
| "has_shape (Array xs) [] = False"

fun item :: "ndarray \<Rightarrow> nat list \<Rightarrow> real option" where
  "item (Scalar x) [] = Some x"
| "item (Array xs) (i # is) = (if i < length xs then item (xs ! i) is else None)"
| "item (Scalar x) (i # is) = None"
| "item (Array xs) [] = None"

text \<open>
  The value of the variable with long name \<open>c\<close> in the grid cell \<open>(i, j, k)\<close>, and the table
  row for the grid point \<open>(i, j, k)\<close> of the axes \<open>tm\<close>, \<open>la\<close>, \<open>lo\<close>: the three coordinates,
  then for every data column the entry of the flattened variable at the position of
  \<open>(i, j, k)\<close> in the product order.
\<close>

definition grid_cell ::
  "nc_Dataset \<Rightarrow> (string \<times> string) list \<Rightarrow> string \<Rightarrow> nat \<Rightarrow> nat \<Rightarrow> nat \<Rightarrow> real option" where
  "grid_cell ds vd c i j k =
     (case variable_of ds vd c of Inl e \<Rightarrow> None | Inr v \<Rightarrow> item (var_data v) [i, j, k])"

definition grid_row ::
  "nc_Dataset \<Rightarrow> (string \<times> string) list \<Rightarrow> real list \<Rightarrow> real list \<Rightarrow> real list
     \<Rightarrow> nat \<Rightarrow> nat \<Rightarrow> nat \<Rightarrow> cell list" where
  "grid_row ds vd tm la lo i j k =
     [Num (tm ! i), Num (la ! j), Num (lo ! k)]
     @ map (\<lambda>c. Num (column_data ds vd c ! ((i * length la + j) * length lo + k))) (data_columns vd)"

section \<open>A small file\<close>

text \<open>
  The file of the specification's examples: \<open>time = [0, 1]\<close>, \<open>lat = [32.5, 35]\<close>,
  \<open>lon = [35, 40]\<close> and one variable \<open>total_precipitation\<close> with the values
  \<open>[[[1, 2], [3, 4]], [[5, 6], [7, 8]]]\<close>; and the \<open>DataSet\<close> that the constructor builds
  from it.
\<close>

definition example_file :: nc_Dataset where
  "example_file =
     \<lparr>dimensions = [\<lparr>dim_name = ''time'', dim_size = 2\<rparr>,
                    \<lparr>dim_name = ''lat'', dim_size = 2\<rparr>,
                    \<lparr>dim_name = ''lon'', dim_size = 2\<rparr>],
      variables =
        [\<lparr>var_name = ''time'', long_name = Some ''time'', var_data = Array [Scalar 0, Scalar 1]\<rparr>,
         \<lparr>var_name = ''lat'', long_name = Some ''latitude'',
          var_data = Array [Scalar 32.5, Scalar 35]\<rparr>,
         \<lparr>var_name = ''lon'', long_name = Some ''longitude'',
          var_data = Array [Scalar 35, Scalar 40]\<rparr>,
         \<lparr>var_name = ''PRECTOT'', long_name = Some ''total_precipitation'',
          var_data = Array [Array [Array [Scalar 1, Scalar 2], Array [Scalar 3, Scalar 4]],
                            Array [Array [Scalar 5, Scalar 6], Array [Scalar 7, Scalar 8]]]\<rparr>]\<rparr>"

definition example_fs :: filesystem where
  "example_fs = (\<lambda>f. if f = ''day1.nc4'' \<or> f = ''day2.nc4'' then Some example_file else None)"

definition example_table :: dataframe where
  "example_table =
     \<lparr>columns = [''time'', ''lat'', ''lon'', ''total_precipitation''],
      rows = [[Num 0, Num 32.5, Num 35, Num 1], [Num 0, Num 32.5, Num 40, Num 2],
              [Num 0, Num 35, Num 35, Num 3], [Num 0, Num 35, Num 40, Num 4],
              [Num 1, Num 32.5, Num 35, Num 5], [Num 1, Num 32.5, Num 40, Num 6],
              [Num 1, Num 35, Num 35, Num 7], [Num 1, Num 35, Num 40, Num 8]]\<rparr>"

definition example_DataSet :: DataSet where
  "example_DataSet =
     \<lparr>dim_dict = [(''time'', 2), (''lat'', 2), (''lon'', 2)],
      var_dict = [(''time'', ''time''), (''latitude'', ''lat''), (''longitude'', ''lon''),
                  (''total_precipitation'', ''PRECTOT'')],
      df = Some example_table,
      lat_set = {32.5, 35},
      lon_set = {35, 40}\<rparr>"

text \<open>
  A file whose latitude axis repeats a value, and a file in which two variables carry the
  same long name; each with the \<open>DataSet\<close> built from it.
\<close>

definition repeated_lat_file :: nc_Dataset where
  "repeated_lat_file =
     \<lparr>dimensions = [\<lparr>dim_name = ''time'', dim_size = 1\<rparr>,
                    \<lparr>dim_name = ''lat'', dim_size = 2\<rparr>,
                    \<lparr>dim_name = ''lon'', dim_size = 1\<rparr>],
      variables =
        [\<lparr>var_name = ''time'', long_name = Some ''time'', var_data = Array [Scalar 0]\<rparr>,
         \<lparr>var_name = ''lat'', long_name = Some ''latitude'',
          var_data = Array [Scalar 32.5, Scalar 32.5]\<rparr>,
         \<lparr>var_name = ''lon'', long_name = Some ''longitude'', var_data = Array [Scalar 35]\<rparr>,
         \<lparr>var_name = ''PRECTOT'', long_name = Some ''total_precipitation'',
          var_data = Array [Array [Array [Scalar 1], Array [Scalar 2]]]\<rparr>]\<rparr>"

definition repeated_lat_DataSet :: DataSet where
  "repeated_lat_DataSet =
     \<lparr>dim_dict = [(''time'', 1), (''lat'', 2), (''lon'', 1)],
      var_dict = [(''time'', ''time''), (''latitude'', ''lat''), (''longitude'', ''lon''),
                  (''total_precipitation'', ''PRECTOT'')],
      df = Some \<lparr>columns = [''time'', ''lat'', ''lon'', ''total_precipitation''],
                 rows = [[Num 0, Num 32.5, Num 35, Num 1], [Num 0, Num 32.5, Num 35, Num 2]]\<rparr>,
      lat_set = {32.5},
      lon_set = {35}\<rparr>"

definition shared_name_file :: nc_Dataset where
  "shared_name_file =
     \<lparr>dimensions = [\<lparr>dim_name = ''time'', dim_size = 1\<rparr>,
                    \<lparr>dim_name = ''lat'', dim_size = 1\<rparr>,
                    \<lparr>dim_name = ''lon'', dim_size = 2\<rparr>],
      variables =
        [\<lparr>var_name = ''time'', long_name = Some ''time'', var_data = Array [Scalar 0]\<rparr>,
         \<lparr>var_name = ''lat'', long_name = Some ''latitude'', var_data = Array [Scalar 32.5]\<rparr>,
         \<lparr>var_name = ''lon'', long_name = Some ''longitude'',
          var_data = Array [Scalar 35, Scalar 40]\<rparr>,
         \<lparr>var_name = ''PRECTOT'', long_name = Some ''total_precipitation'',
          var_data = Array [Array [Array [Scalar 1, Scalar 2]]]\<rparr>,
         \<lparr>var_name = ''PRECTOTCORR'', long_name = Some ''total_precipitation'',
          var_data = Array [Array [Array [Scalar 3, Scalar 4]]]\<rparr>]\<rparr>"

definition shared_name_DataSet :: DataSet where
  "shared_name_DataSet =
     \<lparr>dim_dict = [(''time'', 1), (''lat'', 1), (''lon'', 2)],
      var_dict = [(''time'', ''time''), (''latitude'', ''lat''), (''longitude'', ''lon''),
                  (''total_precipitation'', ''PRECTOTCORR'')],
      df = Some \<lparr>columns = [''time'', ''lat'', ''lon'', ''total_precipitation''],
                 rows = [[Num 0, Num 32.5, Num 35, Num 3], [Num 0, Num 32.5, Num 40, Num 4]]\<rparr>,
      lat_set = {32.5},
      lon_set = {35, 40}\<rparr>"

text \<open>
  Files that the constructor rejects: a variable without the \<open>long_name\<close> attribute, no
  variable \<open>lat\<close>, and a variable with fewer values than the grid has points.
\<close>

definition unnamed_variable_file :: nc_Dataset where
  "unnamed_variable_file =
     example_file\<lparr>variables := variables example_file
        @ [\<lparr>var_name = ''TLML'', long_name = None, var_data = Array []\<rparr>]\<rparr>"

definition no_lat_file :: nc_Dataset where
  "no_lat_file =
     \<lparr>dimensions = [\<lparr>dim_name = ''time'', dim_size = 1\<rparr>],
      variables = [\<lparr>var_name = ''time'', long_name = Some ''time'', var_data = Array [Scalar 0]\<rparr>]\<rparr>"

definition short_variable_file :: nc_Dataset where
  "short_variable_file =
     example_file\<lparr>variables := variables example_file
        @ [\<lparr>var_name = ''TLML'', long_name = Some ''surface_air_temperature'',
            var_data = Array [Scalar 280, Scalar 281]\<rparr>]\<rparr>"

text \<open>A loader that has the first file in its cache, from an earlier cached query.\<close>

definition example_loader :: DataLoader where
  "example_loader = \<lparr>ds_dict = [(''day1.nc4'', example_DataSet)], load_log = [''day1.nc4'']\<rparr>"

section \<open>Properties\<close>

lemma cell_matches_exact: "cell_matches (=) c x \<longleftrightarrow> c = Num x"
  by (cases c) (auto simp: cell_matches_def)

subsection \<open>The small file\<close>

lemma example_convert:
  "convert2dataframe example_file
     [(''time'', ''time''), (''latitude'', ''lat''), (''longitude'', ''lon''),
      (''total_precipitation'', ''PRECTOT'')] = Inr example_table"
  by (simp add: convert2dataframe_def example_file_def ds_getitem_def from_product_def
      variable_values_def variable_of_def reset_index_def example_table_def)

lemma example_coords: "create_coords example_table = ({32.5, 35}, {35, 40})"
  by (auto simp: create_coords_def column_values_def example_table_def cell_of_def)

lemma example_dicts:
  "read_dim_dict (dimensions example_file) = [(''time'', 2), (''lat'', 2), (''lon'', 2)]"
  "read_var_dict (variables example_file) [] =
     Inr [(''time'', ''time''), (''latitude'', ''lat''), (''longitude'', ''lon''),
          (''total_precipitation'', ''PRECTOT'')]"
  by (simp_all add: example_file_def read_dim_dict_def)

lemma example_loaded:
  "DataSet_init example_fs ''day1.nc4'' = Inr example_DataSet"
  "DataSet_init example_fs ''day2.nc4'' = Inr example_DataSet"
  "DataSet_init example_fs ''missing.nc4'' = Inl NameError"
  by (simp_all add: DataSet_init_def example_fs_def example_DataSet_def example_dicts
      example_convert example_coords)

lemma example_queries:
  "coord_timeseries example_DataSet 32.5 35 [''total_precipitation''] =
     Inr \<lparr>columns = [''time'', ''total_precipitation''], rows = [[Num 0, Num 1], [Num 1, Num 5]]\<rparr>"
  "time_slice (\<lambda>d. (=)) example_DataSet 0 ''total_precipitation'' =
     Inr \<lparr>columns = [''lat'', ''lon'', ''total_precipitation''],
          rows = [[Num 32.5, Num 35, Num 1], [Num 32.5, Num 40, Num 2],
                  [Num 35, Num 35, Num 3], [Num 35, Num 40, Num 4]]\<rparr>"
  by (simp_all add: coord_timeseries_def time_slice_def example_DataSet_def example_table_def
      loc_eq_def cell_matches_exact select_columns_def cell_of_def)

lemmas example_queries' = example_queries [simplified]

lemma example_time_series_day1:
  "time_series example_fs DataLoader_init [''day1.nc4''] 32.5 35 [''total_precipitation''] True False =
     (Inr (Frame \<lparr>columns = [''time'', ''total_precipitation''], rows = [[Num 0, Num 1], [Num 1, Num 5]]\<rparr>),
      example_loader)"
  by (simp add: time_series_def DataLoader_init_def load_if_absent_def load_dataset_def
      example_loaded example_queries' release_unless_def pd_concat_def empty_df_def example_loader_def)

lemma example_time_slice_daily_day1:
  "time_slice_daily (\<lambda>d. (=)) example_fs DataLoader_init [''day1.nc4''] 0 ''total_precipitation'' True =
     (Inr \<lparr>columns = [''lat'', ''lon'', ''total_precipitation'', ''FileName''],
          rows = [[Num 32.5, Num 35, Num 1, Str ''day1.nc4''], [Num 32.5, Num 40, Num 2, Str ''day1.nc4''],
                  [Num 35, Num 35, Num 3, Str ''day1.nc4''], [Num 35, Num 40, Num 4, Str ''day1.nc4'']]\<rparr>,
      example_loader)"
  by (simp add: time_slice_daily_def DataLoader_init_def load_if_absent_def load_dataset_def
      example_loaded example_queries' release_unless_def pd_concat_def empty_df_def example_loader_def
      set_column_def)

lemma example_uncached_time_series:
  "time_series example_fs example_loader [''day1.nc4'', ''day2.nc4''] 32.5 35
       [''total_precipitation''] False False =
     (Inr (Frame \<lparr>columns = [''time'', ''total_precipitation''],
                   rows = [[Num 0, Num 1], [Num 1, Num 5], [Num 0, Num 1], [Num 1, Num 5]]\<rparr>),
      \<lparr>ds_dict = [], load_log = [''day1.nc4'', ''day2.nc4'']\<rparr>)"
  by (simp add: time_series_def load_if_absent_def load_dataset_def
      example_loaded example_queries' release_unless_def pd_concat_def empty_df_def example_loader_def)

lemma example_uncached_time_slice_daily:
  "time_slice_daily (\<lambda>d. (=)) example_fs example_loader [''day1.nc4''] 0 ''total_precipitation'' False =
     (Inr \<lparr>columns = [''lat'', ''lon'', ''total_precipitation'', ''FileName''],
          rows = [[Num 32.5, Num 35, Num 1, Str ''day1.nc4''], [Num 32.5, Num 40, Num 2, Str ''day1.nc4''],
                  [Num 35, Num 35, Num 3, Str ''day1.nc4''], [Num 35, Num 40, Num 4, Str ''day1.nc4'']]\<rparr>,
      \<lparr>ds_dict = [], load_log = [''day1.nc4'']\<rparr>)"
  by (simp add: time_slice_daily_def load_if_absent_def load_dataset_def
      example_loaded example_queries' release_unless_def pd_concat_def empty_df_def example_loader_def
      set_column_def)

lemma example_two_days:
  "time_series example_fs DataLoader_init [''day1.nc4'', ''day2.nc4''] 32.5 35
       [''total_precipitation''] True False =
     (Inr (Frame \<lparr>columns = [''time'', ''total_precipitation''],
                   rows = [[Num 0, Num 1], [Num 1, Num 5], [Num 0, Num 1], [Num 1, Num 5]]\<rparr>),
      \<lparr>ds_dict = [(''day1.nc4'', example_DataSet), (''day2.nc4'', example_DataSet)],
       load_log = [''day1.nc4'', ''day2.nc4'']\<rparr>)"
  "time_slice_daily (\<lambda>d. (=)) example_fs DataLoader_init [''day1.nc4'', ''day2.nc4''] 0
       ''total_precipitation'' True =
     (Inr \<lparr>columns = [''lat'', ''lon'', ''total_precipitation'', ''FileName''],
          rows = [[Num 32.5, Num 35, Num 1, Str ''day1.nc4''], [Num 32.5, Num 40, Num 2, Str ''day1.nc4''],
                  [Num 35, Num 35, Num 3, Str ''day1.nc4''], [Num 35, Num 40, Num 4, Str ''day1.nc4''],
                  [Num 32.5, Num 35, Num 1, Str ''day2.nc4''], [Num 32.5, Num 40, Num 2, Str ''day2.nc4''],
                  [Num 35, Num 35, Num 3, Str ''day2.nc4''], [Num 35, Num 40, Num 4, Str ''day2.nc4'']]\<rparr>,
      \<lparr>ds_dict = [(''day1.nc4'', example_DataSet), (''day2.nc4'', example_DataSet)],
       load_log = [''day1.nc4'', ''day2.nc4'']\<rparr>)"
  by (simp_all add: time_series_def time_slice_daily_def DataLoader_init_def load_if_absent_def
      load_dataset_def example_loaded example_queries' release_unless_def pd_concat_def empty_df_def
      set_column_def)

lemma example_axes:
  "coordinate_axis example_file ''time'' = Inr [0, 1]"
  "coordinate_axis example_file ''lat'' = Inr [32.5, 35]"
  "coordinate_axis example_file ''lon'' = Inr [35, 40]"
  by (simp_all add: coordinate_axis_def ds_getitem_def example_file_def)

lemma example_variable:
  "variable_of example_file (var_dict example_DataSet) ''total_precipitation'' =
     Inr \<lparr>var_name = ''PRECTOT'', long_name = Some ''total_precipitation'',
          var_data = Array [Array [Array [Scalar 1, Scalar 2], Array [Scalar 3, Scalar 4]],
                            Array [Array [Scalar 5, Scalar 6], Array [Scalar 7, Scalar 8]]]\<rparr>"
  by (simp add: variable_of_def example_DataSet_def ds_getitem_def example_file_def)

lemma repeated_lat_loaded:
  "DataSet_init (\<lambda>f. Some repeated_lat_file) ''day.nc4'' = Inr repeated_lat_DataSet"
  by (simp add: DataSet_init_def repeated_lat_file_def repeated_lat_DataSet_def read_dim_dict_def
      convert2dataframe_def ds_getitem_def from_product_def variable_values_def variable_of_def
      reset_index_def create_coords_def column_values_def cell_of_def)

lemma shared_name_loaded:
  "DataSet_init (\<lambda>f. Some shared_name_file) ''day.nc4'' = Inr shared_name_DataSet"
  by (simp add: DataSet_init_def shared_name_file_def shared_name_DataSet_def read_dim_dict_def
      convert2dataframe_def ds_getitem_def from_product_def variable_values_def variable_of_def
      reset_index_def create_coords_def column_values_def cell_of_def)

lemma rejected_files:
  "DataSet_init (\<lambda>f. Some unnamed_variable_file) ''day.nc4'' = Inl AttributeError"
  "DataSet_init (\<lambda>f. Some no_lat_file) ''day.nc4'' = Inl IndexError"
  "DataSet_init (\<lambda>f. Some short_variable_file) ''day.nc4'' = Inl ValueError"
  by (simp_all add: DataSet_init_def unnamed_variable_file_def no_lat_file_def
      short_variable_file_def example_file_def convert2dataframe_def ds_getitem_def
      from_product_def variable_values_def variable_of_def)

subsection \<open>Stacking frames, the cache and the query loops\<close>

lemma pd_concat_empty_left: "pd_concat empty_df b = b"
  by (cases b) (auto simp: pd_concat_def empty_df_def)

lemma pd_concat_empty_right: "pd_concat a empty_df = a"
  by (cases a) (auto simp: pd_concat_def empty_df_def)

lemma pd_concat_same_columns:
  "columns a = columns b \<Longrightarrow> pd_concat a b = \<lparr>columns = columns a, rows = rows a @ rows b\<rparr>"
  by (simp add: pd_concat_def)

lemma stackable_empty: "stackable C empty_df"
  by (simp add: stackable_def)

lemma stackable_concat:
  "stackable C a \<Longrightarrow> stackable C b \<Longrightarrow> stackable C (pd_concat a b)"
  by (auto simp: stackable_def pd_concat_empty_left pd_concat_empty_right pd_concat_same_columns)

lemma stackable_rows:
  "stackable C a \<Longrightarrow> stackable C b \<Longrightarrow> rows (pd_concat a b) = rows a @ rows b"
  using pd_concat_empty_left[of b] pd_concat_empty_right[of a]
  by (auto simp: stackable_def pd_concat_same_columns) (simp_all add: empty_df_def)

lemma stackable_assoc:
  "stackable C a \<Longrightarrow> stackable C b \<Longrightarrow> stackable C c \<Longrightarrow>
   pd_concat (pd_concat a b) c = pd_concat a (pd_concat b c)"
  by (auto simp: stackable_def pd_concat_empty_left pd_concat_empty_right pd_concat_same_columns)

lemma coord_timeseries_stackable:
  "coord_timeseries d lat lon vl = Inr t \<Longrightarrow> stackable (''time'' # vl) t"
  by (auto simp: coord_timeseries_def stackable_def select_columns_def loc_eq_def cell_matches_exact
      split: if_splits option.splits sum.splits)

lemma time_series_loop_append:
  "time_series_loop fs lat lon vl cache (xs @ ys) res self =
     (case time_series_loop fs lat lon vl cache xs res self of
        (Inl e, s) \<Rightarrow> (Inl e, s)
      | (Inr r, s) \<Rightarrow> time_series_loop fs lat lon vl cache ys r s)"
  by (induction xs arbitrary: res self)
     (simp_all add: Let_def split: option.splits sum.splits)

lemma time_series_loop_stackable:
  "stackable (''time'' # vl) res \<Longrightarrow>
   time_series_loop fs lat lon vl cache files res self = (Inr r, s) \<Longrightarrow>
   stackable (''time'' # vl) r"
proof (induction files arbitrary: res self)
  case Nil
  then show ?case by simp
next
  case (Cons f files)
  from Cons.prems(2) obtain d curr where
    q: "coord_timeseries d lat lon vl = Inr curr" and
    rest: "time_series_loop fs lat lon vl cache files (pd_concat res curr)
             (release_unless cache f (load_if_absent fs f self)) = (Inr r, s)"
    by (auto simp: Let_def split: option.splits sum.splits)
  from Cons.prems(1) coord_timeseries_stackable[OF q]
  have "stackable (''time'' # vl) (pd_concat res curr)"
    by (rule stackable_concat)
  then show ?case using rest by (rule Cons.IH)
qed

lemma time_series_loop_acc:
  "stackable (''time'' # vl) res \<Longrightarrow>
   time_series_loop fs lat lon vl cache files res self =
     (case time_series_loop fs lat lon vl cache files empty_df self of
        (Inl e, s) \<Rightarrow> (Inl e, s)
      | (Inr r, s) \<Rightarrow> (Inr (pd_concat res r), s))"
proof (induction files arbitrary: res self)
  case Nil
  then show ?case by (simp add: pd_concat_empty_right)
next
  case (Cons f files)
  define self1 where "self1 = load_if_absent fs f self"
  show ?case
  proof (cases "map_of (ds_dict self1) f")
    case None
    then show ?thesis unfolding self1_def by (simp add: Let_def)
  next
    case (Some d)
    show ?thesis
    proof (cases "coord_timeseries d lat lon vl")
      case (Inl e)
      with Some show ?thesis unfolding self1_def by (simp add: Let_def)
    next
      case (Inr curr)
      define self2 where "self2 = release_unless cache f self1"
      have st: "stackable (''time'' # vl) curr"
        using Inr by (rule coord_timeseries_stackable)
      have unf: "time_series_loop fs lat lon vl cache (f # files) r0 self =
                 time_series_loop fs lat lon vl cache files (pd_concat r0 curr) self2" for r0
        using Some Inr unfolding self1_def self2_def by (simp add: Let_def)
      have st': "stackable (''time'' # vl) (pd_concat res curr)"
        using Cons.prems st by (rule stackable_concat)
      note ih1 = Cons.IH[OF st', of self2]
      note ih2 = Cons.IH[OF st, of self2]
      obtain x s where rest: "time_series_loop fs lat lon vl cache files empty_df self2 = (x, s)"
        by (cases "time_series_loop fs lat lon vl cache files empty_df self2")
      show ?thesis
      proof (cases x)
        case (Inl e)
        show ?thesis
          unfolding unf pd_concat_empty_left ih1 ih2 rest Inl by simp
      next
        case (Inr r)
        have str: "stackable (''time'' # vl) r"
          using stackable_empty rest[unfolded Inr] by (rule time_series_loop_stackable)
        show ?thesis
          unfolding unf pd_concat_empty_left ih1 ih2 rest Inr
          using stackable_assoc[OF Cons.prems st str] by simp
      qed
    qed
  qed
qed


lemma load_if_absent_keys:
  "fst ` set (ds_dict self) \<subseteq> fst ` set (ds_dict (load_if_absent fs f self))"
  "fst ` set (ds_dict (load_if_absent fs f self)) \<subseteq> insert f (fst ` set (ds_dict self))"
  by (auto simp: load_if_absent_def load_dataset_def AList.dom_update split: sum.splits)

lemma release_unless_keys:
  "fst ` set (ds_dict (release_unless cache f self)) =
     (if cache then fst ` set (ds_dict self) else fst ` set (ds_dict self) - {f})"
  by (auto simp: release_unless_def AList.delete_eq)

lemma load_if_absent_distinct:
  "distinct (map fst (ds_dict self)) \<Longrightarrow> distinct (map fst (ds_dict (load_if_absent fs f self)))"
  by (auto simp: load_if_absent_def load_dataset_def AList.distinct_update split: sum.splits)

lemma release_unless_distinct:
  "distinct (map fst (ds_dict self)) \<Longrightarrow> distinct (map fst (ds_dict (release_unless cache f self)))"
  by (auto simp: release_unless_def AList.distinct_delete)

lemma load_if_absent_cached:
  "f \<in> fst ` set (ds_dict self) \<Longrightarrow> load_if_absent fs f self = self"
  by (simp add: load_if_absent_def)

lemma load_if_absent_fails:
  "f \<notin> fst ` set (ds_dict self) \<Longrightarrow> DataSet_init fs f = Inl e \<Longrightarrow>
   load_if_absent fs f self = self\<lparr>load_log := load_log self @ [f]\<rparr>"
  by (simp add: load_if_absent_def load_dataset_def)

lemma load_if_absent_loads:
  "f \<notin> fst ` set (ds_dict self) \<Longrightarrow> DataSet_init fs f = Inr d \<Longrightarrow>
   load_if_absent fs f self =
     self\<lparr>ds_dict := AList.update f d (ds_dict self), load_log := load_log self @ [f]\<rparr>"
  by (simp add: load_if_absent_def load_dataset_def)

lemma load_if_absent_log:
  "load_log (load_if_absent fs f self) =
     (if f \<in> fst ` set (ds_dict self) then load_log self else load_log self @ [f])"
  by (simp add: load_if_absent_def load_dataset_def split: sum.splits)

lemma release_unless_log: "load_log (release_unless cache f self) = load_log self"
  by (simp add: release_unless_def)

lemma map_of_None_keys: "map_of al k = None \<longleftrightarrow> k \<notin> fst ` set al"
  by (simp add: map_of_eq_None_iff)

lemma time_series_loop_evicts:
  "time_series_loop fs lat lon vl False files res self = (Inr r, s) \<Longrightarrow>
   fst ` set (ds_dict s) = fst ` set (ds_dict self) - set files"
proof (induction files arbitrary: res self)
  case Nil
  then show ?case by simp
next
  case (Cons f files)
  from Cons.prems obtain d curr where
    hit: "map_of (ds_dict (load_if_absent fs f self)) f = Some d" and
    rest: "time_series_loop fs lat lon vl False files (pd_concat res curr)
             (release_unless False f (load_if_absent fs f self)) = (Inr r, s)"
    by (auto simp: Let_def split: option.splits sum.splits)
  from Cons.IH[OF rest] load_if_absent_keys[where self=self and fs=fs and f=f]
  show ?case by (auto simp: release_unless_keys)
qed

lemma time_series_loop_distinct:
  "distinct (map fst (ds_dict self)) \<Longrightarrow>
   time_series_loop fs lat lon vl cache files res self = (x, s) \<Longrightarrow>
   distinct (map fst (ds_dict s))"
proof (induction files arbitrary: res self)
  case Nil
  then show ?case by simp
next
  case (Cons f files)
  have d1: "distinct (map fst (ds_dict (load_if_absent fs f self)))"
    using Cons.prems(1) by (rule load_if_absent_distinct)
  show ?case
  proof (cases "s = load_if_absent fs f self")
    case True
    with d1 show ?thesis by simp
  next
    case False
    with Cons.prems(2) obtain curr where
      rest: "time_series_loop fs lat lon vl cache files (pd_concat res curr)
             (release_unless cache f (load_if_absent fs f self)) = (x, s)"
      by (auto simp: Let_def split: option.splits sum.splits)
    from release_unless_distinct[OF d1] rest show ?thesis by (rule Cons.IH)
  qed
qed

lemma time_slice_daily_loop_distinct:
  "distinct (map fst (ds_dict self)) \<Longrightarrow>
   time_slice_daily_loop np_eq fs t v cache files res self = (x, s) \<Longrightarrow>
   distinct (map fst (ds_dict s))"
proof (induction files arbitrary: res self)
  case Nil
  then show ?case by simp
next
  case (Cons f files)
  have d1: "distinct (map fst (ds_dict (load_if_absent fs f self)))"
    using Cons.prems(1) by (rule load_if_absent_distinct)
  show ?case
  proof (cases "s = load_if_absent fs f self")
    case True
    with d1 show ?thesis by simp
  next
    case False
    with Cons.prems(2) obtain curr where
      rest: "time_slice_daily_loop np_eq fs t v cache files (pd_concat res curr)
             (release_unless cache f (load_if_absent fs f self)) = (x, s)"
      by (auto simp: Let_def split: option.splits sum.splits)
    from release_unless_distinct[OF d1] rest show ?thesis by (rule Cons.IH)
  qed
qed

lemma time_series_snd:
  "snd (time_series fs self files lat lon vl cache as_numpy) =
   snd (time_series_loop fs lat lon vl cache files empty_df self)"
  by (simp add: time_series_def split: prod.splits sum.splits)

lemma time_series_loop_keeps:
  "time_series_loop fs lat lon vl True files res self = (x, s) \<Longrightarrow>
   fst ` set (ds_dict self) \<subseteq> fst ` set (ds_dict s)"
proof (induction files arbitrary: res self)
  case Nil
  then show ?case by simp
next
  case (Cons f files)
  have k1: "fst ` set (ds_dict self) \<subseteq> fst ` set (ds_dict (load_if_absent fs f self))"
    by (rule load_if_absent_keys)
  show ?case
  proof (cases "s = load_if_absent fs f self")
    case True
    with k1 show ?thesis by simp
  next
    case False
    with Cons.prems obtain curr where
      rest: "time_series_loop fs lat lon vl True files (pd_concat res curr)
             (load_if_absent fs f self) = (x, s)"
      by (auto simp: Let_def release_unless_def split: option.splits sum.splits)
    from Cons.IH[OF rest] k1 show ?thesis by blast
  qed
qed

lemma time_series_loop_log:
  "time_series_loop fs lat lon vl True files res self = (x, s) \<Longrightarrow>
   \<exists>new. load_log s = load_log self @ new \<and> distinct new \<and>
         set new \<subseteq> set files - fst ` set (ds_dict self) \<and>
         ((\<exists>r. x = Inr r) \<longrightarrow> set files \<subseteq> fst ` set (ds_dict s))"
proof (induction files arbitrary: res self)
  case Nil
  then show ?case by simp
next
  case (Cons f files)
  define self1 where "self1 = load_if_absent fs f self"
  have log1: "load_log self1 = (if f \<in> fst ` set (ds_dict self) then load_log self else load_log self @ [f])"
    unfolding self1_def by (rule load_if_absent_log)
  show ?case
  proof (cases "map_of (ds_dict self1) f")
    case None
    with Cons.prems have "s = self1" "x = Inl KeyError"
      unfolding self1_def by (simp_all add: Let_def)
    then show ?thesis using log1 by auto
  next
    case (Some d)
    then have fin: "f \<in> fst ` set (ds_dict self1)"
      by (metis map_of_None_keys option.distinct(1))
    show ?thesis
    proof (cases "coord_timeseries d lat lon vl")
      case (Inl e)
      with Some Cons.prems have "s = self1" "x = Inl e"
        unfolding self1_def by (simp_all add: Let_def)
      then show ?thesis using log1 by auto
    next
      case (Inr curr)
      with Some Cons.prems have
        rest: "time_series_loop fs lat lon vl True files (pd_concat res curr) self1 = (x, s)"
        unfolding self1_def by (simp add: Let_def release_unless_def)
      from Cons.IH[OF rest] obtain new where
        n: "load_log s = load_log self1 @ new" "distinct new"
           "set new \<subseteq> set files - fst ` set (ds_dict self1)"
           "(\<exists>r. x = Inr r) \<longrightarrow> set files \<subseteq> fst ` set (ds_dict s)"
        by blast
      have keys: "fst ` set (ds_dict self) \<subseteq> fst ` set (ds_dict self1)"
        unfolding self1_def by (rule load_if_absent_keys)
      have mono: "fst ` set (ds_dict self1) \<subseteq> fst ` set (ds_dict s)"
        using rest by (rule time_series_loop_keeps)
      define K0 where "K0 = fst ` set (ds_dict self)"
      define K1 where "K1 = fst ` set (ds_dict self1)"
      define Ks where "Ks = fst ` set (ds_dict s)"
      note facts = n(2) n(3)[folded K1_def] n(4)[folded Ks_def] keys[folded K0_def K1_def]
        mono[folded K1_def Ks_def] fin[folded K1_def]
      show ?thesis
      proof (cases "f \<in> K0")
        case True
        have "load_log s = load_log self @ new"
          using n(1) log1 True by (simp add: K0_def)
        moreover have "set new \<subseteq> set (f # files) - K0" using facts by auto
        moreover have "(\<exists>r. x = Inr r) \<longrightarrow> set (f # files) \<subseteq> Ks" using facts by auto
        ultimately show ?thesis using n(2) unfolding K0_def Ks_def by blast
      next
        case False
        have "load_log s = load_log self @ (f # new)"
          using n(1) log1 False by (simp add: K0_def)
        moreover have "set (f # new) \<subseteq> set (f # files) - K0" using facts False by auto
        moreover have "(\<exists>r. x = Inr r) \<longrightarrow> set (f # files) \<subseteq> Ks" using facts by auto
        moreover have "distinct (f # new)" using facts by auto
        ultimately show ?thesis unfolding K0_def Ks_def by blast
      qed
    qed
  qed
qed


lemma time_slice_tagged_stackable:
  "time_slice np_eq d t v = Inr c \<Longrightarrow>
   stackable (if v = ''FileName'' then [''lat'', ''lon'', v] else [''lat'', ''lon'', v, ''FileName''])
     (set_column c ''FileName'' (Str f))"
  by (auto simp: time_slice_def stackable_def select_columns_def loc_eq_def cell_matches_exact set_column_def
      split: if_splits option.splits sum.splits)

lemma time_slice_daily_loop_append:
  "time_slice_daily_loop np_eq fs t v cache (xs @ ys) res self =
     (case time_slice_daily_loop np_eq fs t v cache xs res self of
        (Inl e, s) \<Rightarrow> (Inl e, s)
      | (Inr r, s) \<Rightarrow> time_slice_daily_loop np_eq fs t v cache ys r s)"
  by (induction xs arbitrary: res self)
     (simp_all add: Let_def split: option.splits sum.splits)

lemma time_slice_daily_loop_stackable:
  "stackable (if v = ''FileName'' then [''lat'', ''lon'', v] else [''lat'', ''lon'', v, ''FileName'']) res \<Longrightarrow>
   time_slice_daily_loop np_eq fs t v cache files res self = (Inr r, s) \<Longrightarrow>
   stackable (if v = ''FileName'' then [''lat'', ''lon'', v] else [''lat'', ''lon'', v, ''FileName'']) r"
proof (induction files arbitrary: res self)
  case Nil
  then show ?case by simp
next
  case (Cons f files)
  from Cons.prems(2) obtain d curr where
    q: "time_slice np_eq d t v = Inr curr" and
    rest: "time_slice_daily_loop np_eq fs t v cache files
             (pd_concat res (set_column curr ''FileName'' (Str f)))
             (release_unless cache f (load_if_absent fs f self)) = (Inr r, s)"
    by (auto simp: Let_def split: option.splits sum.splits)
  from Cons.prems(1) time_slice_tagged_stackable[OF q]
  have "stackable (if v = ''FileName'' then [''lat'', ''lon'', v] else [''lat'', ''lon'', v, ''FileName''])
          (pd_concat res (set_column curr ''FileName'' (Str f)))"
    by (rule stackable_concat)
  then show ?case using rest by (rule Cons.IH)
qed

lemma time_slice_daily_loop_acc:
  "stackable (if v = ''FileName'' then [''lat'', ''lon'', v] else [''lat'', ''lon'', v, ''FileName'']) res \<Longrightarrow>
   time_slice_daily_loop np_eq fs t v cache files res self =
     (case time_slice_daily_loop np_eq fs t v cache files empty_df self of
        (Inl e, s) \<Rightarrow> (Inl e, s)
      | (Inr r, s) \<Rightarrow> (Inr (pd_concat res r), s))"
proof (induction files arbitrary: res self)
  case Nil
  then show ?case by (simp add: pd_concat_empty_right)
next
  case (Cons f files)
  let ?C = "if v = ''FileName'' then [''lat'', ''lon'', v] else [''lat'', ''lon'', v, ''FileName'']"
  define self1 where "self1 = load_if_absent fs f self"
  show ?case
  proof (cases "map_of (ds_dict self1) f")
    case None
    then show ?thesis unfolding self1_def by (simp add: Let_def)
  next
    case (Some d)
    show ?thesis
    proof (cases "time_slice np_eq d t v")
      case (Inl e)
      with Some show ?thesis unfolding self1_def by (simp add: Let_def)
    next
      case (Inr c)
      define curr where "curr = set_column c ''FileName'' (Str f)"
      define self2 where "self2 = release_unless cache f self1"
      have st: "stackable ?C curr"
        unfolding curr_def using Inr by (rule time_slice_tagged_stackable)
      have unf: "time_slice_daily_loop np_eq fs t v cache (f # files) r0 self =
                 time_slice_daily_loop np_eq fs t v cache files (pd_concat r0 curr) self2" for r0
        using Some Inr unfolding self1_def self2_def curr_def by (simp add: Let_def)
      have st': "stackable ?C (pd_concat res curr)"
        using Cons.prems st by (rule stackable_concat)
      note ih1 = Cons.IH[OF st', of self2]
      note ih2 = Cons.IH[OF st, of self2]
      obtain x s where rest: "time_slice_daily_loop np_eq fs t v cache files empty_df self2 = (x, s)"
        by (cases "time_slice_daily_loop np_eq fs t v cache files empty_df self2")
      show ?thesis
      proof (cases x)
        case (Inl e)
        show ?thesis
          unfolding unf pd_concat_empty_left ih1 ih2 rest Inl by simp
      next
        case (Inr r)
        have str: "stackable ?C r"
          using stackable_empty rest[unfolded Inr] by (rule time_slice_daily_loop_stackable)
        show ?thesis
          unfolding unf pd_concat_empty_left ih1 ih2 rest Inr
          using stackable_assoc[OF Cons.prems st str] by simp
      qed
    qed
  qed
qed

lemma time_slice_daily_loop_evicts:
  "time_slice_daily_loop np_eq fs t v False files res self = (Inr r, s) \<Longrightarrow>
   fst ` set (ds_dict s) = fst ` set (ds_dict self) - set files"
proof (induction files arbitrary: res self)
  case Nil
  then show ?case by simp
next
  case (Cons f files)
  from Cons.prems obtain curr where
    rest: "time_slice_daily_loop np_eq fs t v False files (pd_concat res curr)
             (release_unless False f (load_if_absent fs f self)) = (Inr r, s)"
    by (auto simp: Let_def split: option.splits sum.splits)
  from Cons.IH[OF rest] load_if_absent_keys[where self=self and fs=fs and f=f]
  show ?case by (auto simp: release_unless_keys)
qed

lemma time_series_Frame:
  "time_series fs self files lat lon vl cache False = (Inr (Frame r), s) \<longleftrightarrow>
   time_series_loop fs lat lon vl cache files empty_df self = (Inr r, s)"
  by (auto simp: time_series_def split: prod.splits sum.splits)

lemma time_series_Numpy:
  "time_series fs self files lat lon vl cache True = (Inr q, s) \<longleftrightarrow>
   (\<exists>r. time_series_loop fs lat lon vl cache files empty_df self = (Inr r, s) \<and> q = Numpy r)"
  by (auto simp: time_series_def split: prod.splits sum.splits)

lemma time_series_loop_split:
  assumes "time_series_loop fs lat lon vl cache (xs @ ys) empty_df self = (Inr r, s')"
  shows "\<exists>ra s rb. time_series_loop fs lat lon vl cache xs empty_df self = (Inr ra, s) \<and>
                   time_series_loop fs lat lon vl cache ys empty_df s = (Inr rb, s') \<and>
                   rows r = rows ra @ rows rb"
proof -
  from assms obtain ra s where
    a: "time_series_loop fs lat lon vl cache xs empty_df self = (Inr ra, s)" and
    b: "time_series_loop fs lat lon vl cache ys ra s = (Inr r, s')"
    by (auto simp: time_series_loop_append split: prod.splits sum.splits)
  have sa: "stackable (''time'' # vl) ra"
    using stackable_empty a by (rule time_series_loop_stackable)
  from b time_series_loop_acc[OF sa, of fs lat lon cache ys s] obtain rb where
    c: "time_series_loop fs lat lon vl cache ys empty_df s = (Inr rb, s')" and
    r: "r = pd_concat ra rb"
    by (auto split: prod.splits sum.splits)
  have sb: "stackable (''time'' # vl) rb"
    using stackable_empty c by (rule time_series_loop_stackable)
  from a c r stackable_rows[OF sa sb] show ?thesis by blast
qed

lemma time_slice_daily_loop_split:
  assumes "time_slice_daily_loop np_eq fs t v cache (xs @ ys) empty_df self = (Inr r, s')"
  shows "\<exists>ra s rb. time_slice_daily_loop np_eq fs t v cache xs empty_df self = (Inr ra, s) \<and>
                   time_slice_daily_loop np_eq fs t v cache ys empty_df s = (Inr rb, s') \<and>
                   rows r = rows ra @ rows rb"
proof -
  let ?C = "if v = ''FileName'' then [''lat'', ''lon'', v] else [''lat'', ''lon'', v, ''FileName'']"
  from assms obtain ra s where
    a: "time_slice_daily_loop np_eq fs t v cache xs empty_df self = (Inr ra, s)" and
    b: "time_slice_daily_loop np_eq fs t v cache ys ra s = (Inr r, s')"
    by (auto simp: time_slice_daily_loop_append split: prod.splits sum.splits)
  have sa: "stackable ?C ra"
    using stackable_empty a by (rule time_slice_daily_loop_stackable)
  from b time_slice_daily_loop_acc[OF sa, of np_eq fs t cache ys s] obtain rb where
    c: "time_slice_daily_loop np_eq fs t v cache ys empty_df s = (Inr rb, s')" and
    r: "r = pd_concat ra rb"
    by (auto split: prod.splits sum.splits)
  have sb: "stackable ?C rb"
    using stackable_empty c by (rule time_slice_daily_loop_stackable)
  from a c r stackable_rows[OF sa sb] show ?thesis by blast
qed

lemma time_series_loop_single:
  "time_series_loop fs lat lon vl cache [f] empty_df self = (Inr r, s') \<Longrightarrow>
   \<exists>d. map_of (ds_dict (load_if_absent fs f self)) f = Some d \<and> coord_timeseries d lat lon vl = Inr r"
  by (auto simp: Let_def pd_concat_empty_left split: option.splits sum.splits)

lemma time_slice_daily_loop_single:
  "time_slice_daily_loop np_eq fs t v cache [f] empty_df self = (Inr r, s') \<Longrightarrow>
   \<exists>d c. map_of (ds_dict (load_if_absent fs f self)) f = Some d \<and> time_slice np_eq d t v = Inr c \<and>
         r = set_column c ''FileName'' (Str f)"
  by (auto simp: Let_def pd_concat_empty_left split: option.splits sum.splits)

subsection \<open>Lists of blocks of equal length\<close>

lemma length_concat_blocks:
  "\<forall>xs\<in>set xss. length xs = m \<Longrightarrow> length (concat xss) = length xss * m"
  by (induction xss) simp_all

lemma nth_concat_blocks:
  "\<forall>xs\<in>set xss. length xs = m \<Longrightarrow> i < length xss \<Longrightarrow> r < m \<Longrightarrow>
   concat xss ! (i * m + r) = xss ! i ! r"
proof (induction xss arbitrary: i)
  case Nil
  then show ?case by simp
next
  case (Cons xs xss)
  show ?case
  proof (cases i)
    case 0
    with Cons.prems show ?thesis by (simp add: nth_append)
  next
    case (Suc i')
    with Cons.prems have "concat xss ! (i' * m + r) = xss ! i' ! r"
      by (intro Cons.IH) simp_all
    with Suc Cons.prems show ?thesis by (simp add: nth_append)
  qed
qed


lemma map_add_upt_left: "map (\<lambda>r. a + r) [0..<m] = [a..<a + m]"
  by (induction m) simp_all

lemma upt_blocks: "[0..<n * m] = concat (map (\<lambda>i. map (\<lambda>r. i * m + r) [0..<m]) [0..<n])"
proof (induction n)
  case 0
  then show ?case by simp
next
  case (Suc n)
  have e: "Suc n * m = n * m + m" by simp
  have "[0..<n * m + m] = [0..<n * m] @ [n * m..<n * m + m]"
    by (rule upt_add_eq_append) simp
  also have "[n * m..<n * m + m] = map (\<lambda>r. n * m + r) [0..<m]"
    by (rule map_add_upt_left[symmetric])
  finally have "[0..<Suc n * m] = [0..<n * m] @ map (\<lambda>r. n * m + r) [0..<m]"
    unfolding e .
  then show ?case unfolding Suc by simp
qed

lemma concat_concat_map:
  "concat (concat (map f xs)) = concat (map (\<lambda>x. concat (f x)) xs)"
  by (induction xs) simp_all

lemma length_product_block:
  "length (concat (map (\<lambda>a. map (\<lambda>b. [t, a, b]) lo) la)) = length la * length lo"
  using length_concat_blocks[of "map (\<lambda>a. map (\<lambda>b. [t, a, b]) lo) la" "length lo"]
  by simp

lemma length_from_product:
  "length (from_product tm la lo) = length tm * length la * length lo"
  using length_concat_blocks[of "map (\<lambda>t. concat (map (\<lambda>a. map (\<lambda>b. [t, a, b]) lo) la)) tm"
      "length la * length lo"]
  by (simp add: from_product_def length_product_block)


lemma grid_index_less:
  assumes "j < (La::nat)" "k < Lo"
  shows "j * Lo + k < La * Lo"
proof -
  have "j * Lo + k < Suc j * Lo" using assms(2) by simp
  also have "\<dots> \<le> La * Lo" using assms(1) by (intro mult_le_mono1) simp
  finally show ?thesis .
qed

lemma nth_from_product:
  assumes "i < length tm" "j < length la" "k < length lo"
  shows "from_product tm la lo ! ((i * length la + j) * length lo + k) = [tm ! i, la ! j, lo ! k]"
proof -
  let ?blk = "\<lambda>t. concat (map (\<lambda>a. map (\<lambda>b. [t, a, b]) lo) la)"
  have r: "j * length lo + k < length la * length lo"
    using assms(2,3) by (rule grid_index_less)
  have idx: "(i * length la + j) * length lo + k = i * (length la * length lo) + (j * length lo + k)"
    by (simp add: algebra_simps)
  have b1: "\<forall>xs\<in>set (map ?blk tm). length xs = length la * length lo"
    by (simp add: length_product_block)
  have b2: "\<forall>xs\<in>set (map (\<lambda>a. map (\<lambda>b. [tm ! i, a, b]) lo) la). length xs = length lo"
    by simp
  have i1: "i < length (map ?blk tm)" using assms(1) by simp
  have j1: "j < length (map (\<lambda>a. map (\<lambda>b. [tm ! i, a, b]) lo) la)" using assms(2) by simp
  have "from_product tm la lo ! ((i * length la + j) * length lo + k) =
        map ?blk tm ! i ! (j * length lo + k)"
    unfolding from_product_def idx
    using b1 i1 r by (rule nth_concat_blocks)
  also have "\<dots> = ?blk (tm ! i) ! (j * length lo + k)"
    using assms(1) by simp
  also have "\<dots> = map (\<lambda>a. map (\<lambda>b. [tm ! i, a, b]) lo) la ! j ! k"
    using b2 j1 assms(3) by (rule nth_concat_blocks)
  also have "\<dots> = [tm ! i, la ! j, lo ! k]"
    using assms by simp
  finally show ?thesis .
qed

lemma upt_grid:
  "[0..<T * La * Lo] =
     concat (map (\<lambda>i. concat (map (\<lambda>j. map (\<lambda>k. (i * La + j) * Lo + k) [0..<Lo]) [0..<La])) [0..<T])"
proof -
  have "[0..<T * La * Lo] = concat (map (\<lambda>p. map (\<lambda>k. p * Lo + k) [0..<Lo]) [0..<T * La])"
    by (rule upt_blocks)
  also have "[0..<T * La] = concat (map (\<lambda>i. map (\<lambda>j. i * La + j) [0..<La]) [0..<T])"
    by (rule upt_blocks)
  finally show ?thesis
    by (simp add: map_concat comp_def concat_concat_map)
qed

lemma map_grid:
  "map F [0..<T * La * Lo] =
     concat (map (\<lambda>i. concat (map (\<lambda>j. map (\<lambda>k. F ((i * La + j) * Lo + k)) [0..<Lo]) [0..<La])) [0..<T])"
  by (simp add: upt_grid map_concat comp_def)

lemma filter_upt_eq: "j0 < n \<Longrightarrow> filter (\<lambda>j. j = j0) [0..<n] = [j0]"
  by (induction n) (auto simp: less_Suc_eq filter_empty_conv)

lemma filter_nth_eq:
  assumes "distinct xs" "j0 < length xs"
  shows "filter (\<lambda>j. xs ! j = xs ! j0) [0..<length xs] = [j0]"
proof -
  have "filter (\<lambda>j. xs ! j = xs ! j0) [0..<length xs] = filter (\<lambda>j. j = j0) [0..<length xs]"
    using assms by (intro filter_cong refl) (simp add: nth_eq_iff_index_eq)
  with assms(2) show ?thesis by (simp add: filter_upt_eq)
qed

lemma concat_map_if: "concat (map (\<lambda>j. if Q j then [f j] else []) xs) = map f (filter Q xs)"
  by (induction xs) simp_all

lemma filter_grid:
  assumes la: "distinct la" "j0 < length la" and lo: "distinct lo" "k0 < length lo"
    and P: "\<And>i j k. i < T \<Longrightarrow> j < length la \<Longrightarrow> k < length lo \<Longrightarrow>
              P (R i j k) \<longleftrightarrow> la ! j = la ! j0 \<and> lo ! k = lo ! k0"
  shows "filter P (concat (map (\<lambda>i. concat (map (\<lambda>j. map (\<lambda>k. R i j k) [0..<length lo])
                                               [0..<length la])) [0..<T])) =
         map (\<lambda>i. R i j0 k0) [0..<T]"
proof -
  have inner: "filter P (map (\<lambda>k. R i j k) [0..<length lo]) =
               (if la ! j = la ! j0 then [R i j k0] else [])" if "i < T" "j < length la" for i j
  proof -
    have "filter P (map (\<lambda>k. R i j k) [0..<length lo]) =
          map (\<lambda>k. R i j k) (filter (\<lambda>k. P (R i j k)) [0..<length lo])"
      by (simp add: filter_map comp_def)
    also have "filter (\<lambda>k. P (R i j k)) [0..<length lo] =
               filter (\<lambda>k. la ! j = la ! j0 \<and> lo ! k = lo ! k0) [0..<length lo]"
      using that by (intro filter_cong refl) (simp add: P)
    also have "\<dots> = (if la ! j = la ! j0 then [k0] else [])"
      using filter_nth_eq[OF lo] by simp
    finally show ?thesis by simp
  qed
  have middle: "filter P (concat (map (\<lambda>j. map (\<lambda>k. R i j k) [0..<length lo]) [0..<length la])) =
                [R i j0 k0]" if "i < T" for i
  proof -
    have "filter P (concat (map (\<lambda>j. map (\<lambda>k. R i j k) [0..<length lo]) [0..<length la])) =
          concat (map (\<lambda>j. filter P (map (\<lambda>k. R i j k) [0..<length lo])) [0..<length la])"
      by (simp add: filter_concat comp_def)
    also have "\<dots> = concat (map (\<lambda>j. if la ! j = la ! j0 then [R i j k0] else []) [0..<length la])"
      using that by (intro arg_cong[where f = concat] map_cong refl) (simp add: inner)
    also have "\<dots> = map (\<lambda>j. R i j k0) (filter (\<lambda>j. la ! j = la ! j0) [0..<length la])"
      by (rule concat_map_if)
    also have "\<dots> = [R i j0 k0]"
      using filter_nth_eq[OF la] by simp
    finally show ?thesis .
  qed
  have "filter P (concat (map (\<lambda>i. concat (map (\<lambda>j. map (\<lambda>k. R i j k) [0..<length lo])
                                               [0..<length la])) [0..<T])) =
        concat (map (\<lambda>i. filter P (concat (map (\<lambda>j. map (\<lambda>k. R i j k) [0..<length lo])
                                               [0..<length la]))) [0..<T])"
    by (simp add: filter_concat comp_def)
  also have "\<dots> = concat (map (\<lambda>i. [R i j0 k0]) [0..<T])"
    by (intro arg_cong[where f = concat] map_cong refl) (simp add: middle)
  finally show ?thesis by simp
qed

subsection \<open>The table that the constructor builds\<close>

lemma add_columns_table:
  assumes "add_columns ds vd mi ks t = Inr t'" and "length (rows t) = length mi"
  shows "columns t' = columns t @ filter (\<lambda>k. k \<notin> {''longitude'', ''latitude'', ''time''}) ks \<and>
         rows t' = map (\<lambda>i. rows t ! i @ map (\<lambda>k. Num (column_data ds vd k ! i))
                                 (filter (\<lambda>k. k \<notin> {''longitude'', ''latitude'', ''time''}) ks))
                     [0..<length mi] \<and>
         (\<forall>k\<in>set (filter (\<lambda>k. k \<notin> {''longitude'', ''latitude'', ''time''}) ks).
            \<exists>fl. variable_values ds vd k = Inr fl \<and> length fl = length mi)"
  using assms
proof (induction ks arbitrary: t)
  case Nil
  then show ?case by (auto intro: nth_equalityI)
next
  case (Cons k ks)
  show ?case
  proof (cases "k \<notin> {''longitude'', ''latitude'', ''time''}")
    case False
    with Cons.prems(1) have "add_columns ds vd mi ks t = Inr t'" by auto
    from Cons.IH[OF this Cons.prems(2)] False show ?thesis by auto
  next
    case True
    with Cons.prems(1) obtain fl where
      fl: "variable_values ds vd k = Inr fl" "length fl = length mi" and
      rest: "add_columns ds vd mi ks
               \<lparr>columns = columns t @ [k], rows = map2 (\<lambda>r x. r @ [Num x]) (rows t) fl\<rparr> = Inr t'"
      by (auto split: sum.splits if_splits)
    let ?t1 = "\<lparr>columns = columns t @ [k], rows = map2 (\<lambda>r x. r @ [Num x]) (rows t) fl\<rparr>"
    have len: "length (rows ?t1) = length mi"
      using fl Cons.prems(2) by simp
    have row1: "rows ?t1 ! i = rows t ! i @ [Num (column_data ds vd k ! i)]" if "i < length mi" for i
      using that fl Cons.prems(2) by (simp add: column_data_def)
    from Cons.IH[OF rest len] True fl row1 show ?thesis
      by (auto simp del: add_columns.simps)
  qed
qed


lemma convert2dataframe_table:
  assumes "convert2dataframe ds vd = Inr t"
  shows "\<exists>tm la lo.
           coordinate_axis ds ''time'' = Inr tm \<and> coordinate_axis ds ''lat'' = Inr la \<and>
           coordinate_axis ds ''lon'' = Inr lo \<and>
           set [''time'', ''lat'', ''lon''] \<inter> set (data_columns vd) = {} \<and>
           (\<forall>k\<in>set (data_columns vd).
              \<exists>fl. variable_values ds vd k = Inr fl \<and> length fl = length (from_product tm la lo)) \<and>
           t = \<lparr>columns = [''time'', ''lat'', ''lon''] @ data_columns vd,
                rows = map (\<lambda>i. map Num (from_product tm la lo ! i)
                                   @ map (\<lambda>k. Num (column_data ds vd k ! i)) (data_columns vd))
                         [0..<length (from_product tm la lo)]\<rparr>"
proof -
  from assms obtain lonv latv timev tm la lo t0 where
    v: "ds_getitem ds ''lon'' = Inr lonv" "ds_getitem ds ''lat'' = Inr latv"
       "ds_getitem ds ''time'' = Inr timev" and
    a: "axis_values (var_data timev) = Inr tm" "axis_values (var_data latv) = Inr la"
       "axis_values (var_data lonv) = Inr lo" and
    ac: "add_columns ds vd (from_product tm la lo) (map fst vd)
           \<lparr>columns = [], rows = map (\<lambda>_. []) (from_product tm la lo)\<rparr> = Inr t0" and
    ri: "reset_index (from_product tm la lo) t0 = Inr t"
    by (auto simp: convert2dataframe_def Let_def split: sum.splits)
  let ?mi = "from_product tm la lo"
  from add_columns_table[OF ac] have
    c0: "columns t0 = data_columns vd" and
    r0: "rows t0 = map (\<lambda>i. map (\<lambda>k. Num (column_data ds vd k ! i)) (data_columns vd)) [0..<length ?mi]" and
    f0: "\<forall>k\<in>set (data_columns vd). \<exists>fl. variable_values ds vd k = Inr fl \<and> length fl = length ?mi"
    by (simp_all add: data_columns_def)
  from ri have dis: "set [''time'', ''lat'', ''lon''] \<inter> set (columns t0) = {}"
    and t: "t = \<lparr>columns = [''time'', ''lat'', ''lon''] @ columns t0,
                   rows = map2 (\<lambda>i r. map Num i @ r) ?mi (rows t0)\<rparr>"
    by (auto simp: reset_index_def split: if_splits)
  have "map2 (\<lambda>i r. map Num i @ r) ?mi (rows t0) =
        map (\<lambda>i. map Num (?mi ! i) @ map (\<lambda>k. Num (column_data ds vd k ! i)) (data_columns vd))
          [0..<length ?mi]"
    unfolding r0 by (rule nth_equalityI) simp_all
  with t c0 dis f0 v a show ?thesis
    by (simp add: coordinate_axis_def)
qed

lemma DataSet_init_table:
  assumes "DataSet_init fs filename = Inr self"
  shows "\<exists>ds tm la lo dfl.
           fs filename = Some ds \<and>
           read_var_dict (variables ds) [] = Inr (var_dict self) \<and>
           dim_dict self = read_dim_dict (dimensions ds) \<and>
           coordinate_axis ds ''time'' = Inr tm \<and> coordinate_axis ds ''lat'' = Inr la \<and>
           coordinate_axis ds ''lon'' = Inr lo \<and>
           set [''time'', ''lat'', ''lon''] \<inter> set (data_columns (var_dict self)) = {} \<and>
           (\<forall>k\<in>set (data_columns (var_dict self)).
              \<exists>fl. variable_values ds (var_dict self) k = Inr fl \<and>
                   length fl = length (from_product tm la lo)) \<and>
           df self = Some dfl \<and>
           lat_set self = fst (create_coords dfl) \<and> lon_set self = snd (create_coords dfl) \<and>
           dfl = \<lparr>columns = [''time'', ''lat'', ''lon''] @ data_columns (var_dict self),
                  rows = map (\<lambda>i. map Num (from_product tm la lo ! i)
                                     @ map (\<lambda>k. Num (column_data ds (var_dict self) k ! i))
                                         (data_columns (var_dict self)))
                           [0..<length (from_product tm la lo)]\<rparr>"
proof -
  from assms obtain ds vd t where
    f: "fs filename = Some ds" and vd: "read_var_dict (variables ds) [] = Inr vd" and
    c: "convert2dataframe ds vd = Inr t" and
    s: "self = \<lparr>dim_dict = read_dim_dict (dimensions ds), var_dict = vd, df = Some t,
                  lat_set = fst (create_coords t), lon_set = snd (create_coords t)\<rparr>"
    by (auto simp: DataSet_init_def split: option.splits sum.splits)
  from convert2dataframe_table[OF c] f vd s show ?thesis
    by auto
qed

lemma loaded_table:
  assumes init: "DataSet_init fs filename = Inr self" and f: "fs filename = Some ds"
    and ax: "coordinate_axis ds ''time'' = Inr tm" "coordinate_axis ds ''lat'' = Inr la"
            "coordinate_axis ds ''lon'' = Inr lo"
  shows "df self =
           Some \<lparr>columns = [''time'', ''lat'', ''lon''] @ data_columns (var_dict self),
                 rows = concat (map (\<lambda>i. concat (map (\<lambda>j. map (\<lambda>k.
                            grid_row ds (var_dict self) tm la lo i j k)
                          [0..<length lo]) [0..<length la])) [0..<length tm])\<rparr>"
    and "set [''time'', ''lat'', ''lon''] \<inter> set (data_columns (var_dict self)) = {}"
    and "\<forall>c\<in>set (data_columns (var_dict self)).
           \<exists>fl. variable_values ds (var_dict self) c = Inr fl \<and>
                length fl = length tm * length la * length lo"
    and "read_var_dict (variables ds) [] = Inr (var_dict self)"
proof -
  from DataSet_init_table[OF init] f ax obtain dfl where
    vd: "read_var_dict (variables ds) [] = Inr (var_dict self)" and
    dis: "set [''time'', ''lat'', ''lon''] \<inter> set (data_columns (var_dict self)) = {}" and
    fl: "\<forall>k\<in>set (data_columns (var_dict self)).
           \<exists>fl. variable_values ds (var_dict self) k = Inr fl \<and>
                length fl = length (from_product tm la lo)" and
    d: "df self = Some dfl" and
    t: "dfl = \<lparr>columns = [''time'', ''lat'', ''lon''] @ data_columns (var_dict self),
               rows = map (\<lambda>i. map Num (from_product tm la lo ! i)
                                  @ map (\<lambda>k. Num (column_data ds (var_dict self) k ! i))
                                      (data_columns (var_dict self)))
                        [0..<length (from_product tm la lo)]\<rparr>"
    by auto
  let ?F = "\<lambda>i. map Num (from_product tm la lo ! i)
                 @ map (\<lambda>k. Num (column_data ds (var_dict self) k ! i)) (data_columns (var_dict self))"
  have "map ?F [0..<length tm * length la * length lo] =
        concat (map (\<lambda>i. concat (map (\<lambda>j. map (\<lambda>k. ?F ((i * length la + j) * length lo + k))
                  [0..<length lo]) [0..<length la])) [0..<length tm])"
    by (rule map_grid)
  also have "\<dots> = concat (map (\<lambda>i. concat (map (\<lambda>j. map (\<lambda>k.
                            grid_row ds (var_dict self) tm la lo i j k)
                          [0..<length lo]) [0..<length la])) [0..<length tm])"
    by (intro arg_cong[where f = concat] map_cong refl)
       (simp add: nth_from_product grid_row_def)
  finally show "df self =
           Some \<lparr>columns = [''time'', ''lat'', ''lon''] @ data_columns (var_dict self),
                 rows = concat (map (\<lambda>i. concat (map (\<lambda>j. map (\<lambda>k.
                            grid_row ds (var_dict self) tm la lo i j k)
                          [0..<length lo]) [0..<length la])) [0..<length tm])\<rparr>"
    using d t by (simp add: length_from_product)
  show "set [''time'', ''lat'', ''lon''] \<inter> set (data_columns (var_dict self)) = {}" by (rule dis)
  show "\<forall>c\<in>set (data_columns (var_dict self)).
           \<exists>fl. variable_values ds (var_dict self) c = Inr fl \<and>
                length fl = length tm * length la * length lo"
    using fl by (simp add: length_from_product)
  show "read_var_dict (variables ds) [] = Inr (var_dict self)" by (rule vd)
qed

lemma cell_of_grid_row:
  "cell_of (''time'' # ''lat'' # ''lon'' # dk) (grid_row ds vd tm la lo i j k) ''time'' = Num (tm ! i)"
  "cell_of (''time'' # ''lat'' # ''lon'' # dk) (grid_row ds vd tm la lo i j k) ''lat'' = Num (la ! j)"
  "cell_of (''time'' # ''lat'' # ''lon'' # dk) (grid_row ds vd tm la lo i j k) ''lon'' = Num (lo ! k)"
  by (simp_all add: cell_of_def grid_row_def)

lemma cell_of_grid_row_data:
  assumes "c \<in> set (data_columns vd)" "c \<notin> set [''time'', ''lat'', ''lon'']"
  shows "cell_of (''time'' # ''lat'' # ''lon'' # data_columns vd) (grid_row ds vd tm la lo i j k) c =
         Num (column_data ds vd c ! ((i * length la + j) * length lo + k))"
  using assms by (simp add: cell_of_def grid_row_def map_of_zip_map)


lemma has_shape_length_flatten:
  "has_shape a ns \<Longrightarrow> length (flatten a) = prod_list ns"
proof (induction a ns rule: has_shape.induct)
  case (2 xs n ns)
  then have "\<forall>x\<in>set (map flatten xs). length x = prod_list ns"
    by (auto simp: list_all_iff)
  from length_concat_blocks[OF this] 2 show ?case by simp
qed simp_all

lemma flatten_Array_nth:
  assumes "list_all (\<lambda>a. has_shape a ns) xs" "i < length xs" "r < prod_list ns"
  shows "flatten (Array xs) ! (i * prod_list ns + r) = flatten (xs ! i) ! r"
proof -
  have "\<forall>x\<in>set (map flatten xs). length x = prod_list ns"
    using assms(1) by (auto simp: list_all_iff has_shape_length_flatten)
  from nth_concat_blocks[OF this, of i r] assms(2,3) show ?thesis by simp
qed

lemma item_flatten:
  assumes "has_shape a [T, La, Lo]" "i < T" "j < La" "k < Lo"
  shows "item a [i, j, k] = Some (flatten a ! ((i * La + j) * Lo + k))"
proof -
  from assms(1) obtain xs where a: "a = Array xs" "length xs = T"
    "list_all (\<lambda>b. has_shape b [La, Lo]) xs"
    by (cases a) auto
  with assms(2) have "has_shape (xs ! i) [La, Lo]" by (simp add: list_all_length)
  then obtain ys where b: "xs ! i = Array ys" "length ys = La"
    "list_all (\<lambda>c. has_shape c [Lo]) ys"
    by (cases "xs ! i") auto
  with assms(3) have "has_shape (ys ! j) [Lo]" by (simp add: list_all_length)
  then obtain zs where c: "ys ! j = Array zs" "length zs = Lo"
    "list_all (\<lambda>d. has_shape d []) zs"
    by (cases "ys ! j") auto
  with assms(4) have "has_shape (zs ! k) []" by (simp add: list_all_length)
  then obtain x where d: "zs ! k = Scalar x"
    by (cases "zs ! k") auto
  have idx: "(i * La + j) * Lo + k = i * prod_list [La, Lo] + (j * Lo + k)"
    by (simp add: algebra_simps)
  have r: "j * Lo + k < La * Lo" using assms(3,4) by (rule grid_index_less)
  have "flatten a ! ((i * La + j) * Lo + k) = flatten (xs ! i) ! (j * Lo + k)"
    unfolding idx a(1) using a(3) _ _ by (rule flatten_Array_nth) (use assms(2) a(2) r in simp_all)
  also have "\<dots> = flatten (Array ys) ! (j * prod_list [Lo] + k)"
    by (simp add: b(1))
  also have "\<dots> = flatten (ys ! j) ! k"
    using b(3) _ _ by (rule flatten_Array_nth) (use assms(3,4) b(2) in simp_all)
  also have "\<dots> = flatten (Array zs) ! (k * prod_list [] + 0)"
    by (simp add: c(1))
  also have "\<dots> = flatten (zs ! k) ! 0"
    using c(3) _ _ by (rule flatten_Array_nth) (use assms(4) c(2) in simp_all)
  also have "\<dots> = x" by (simp add: d)
  finally have "flatten a ! ((i * La + j) * Lo + k) = x" .
  moreover have "item a [i, j, k] = Some x"
    using a b c d assms by simp
  ultimately show ?thesis by simp
qed

lemma set_column_values:
  "set (column_values t c) = {x. \<exists>r\<in>set (rows t). cell_of (columns t) r c = Num x}"
  by (auto simp: column_values_def split: cell.splits)


lemma loaded_coord_sets:
  assumes init: "DataSet_init fs filename = Inr self" and f: "fs filename = Some ds"
    and ax: "coordinate_axis ds ''time'' = Inr tm" "coordinate_axis ds ''lat'' = Inr la"
            "coordinate_axis ds ''lon'' = Inr lo"
  shows "lat \<in> lat_set self \<Longrightarrow> lat \<in> set la"
    and "lon \<in> lon_set self \<Longrightarrow> lon \<in> set lo"
proof -
  note t = loaded_table(1)[OF init f ax]
  from DataSet_init_table[OF init] t have
    sets: "lat_set self = fst (create_coords (the (df self)))"
          "lon_set self = snd (create_coords (the (df self)))"
    by auto
  show "lat \<in> set la" if "lat \<in> lat_set self"
    using that unfolding sets t
    by (auto simp: create_coords_def set_column_values cell_of_grid_row)
  show "lon \<in> set lo" if "lon \<in> lon_set self"
    using that unfolding sets t
    by (auto simp: create_coords_def set_column_values cell_of_grid_row)
qed

lemma grid_cell_column_data:
  assumes "variable_of ds vd c = Inr v" "has_shape (var_data v) [T, La, Lo]"
    "i < T" "j < La" "k < Lo"
  shows "grid_cell ds vd c i j k = Some (column_data ds vd c ! ((i * La + j) * Lo + k))"
  using item_flatten[OF assms(2-5)] assms(1)
  by (simp add: grid_cell_def column_data_def variable_values_def)

lemma read_var_dict_keys:
  "read_var_dict vs m = Inr vd \<Longrightarrow>
   fst ` set vd = fst ` set m \<union> {l. \<exists>v\<in>set vs. long_name v = Some l}"
proof (induction vs arbitrary: m)
  case Nil
  then show ?case by simp
next
  case (Cons v vs)
  from Cons.prems obtain l where l: "long_name v = Some l"
    and rest: "read_var_dict vs (AList.update l (var_name v) m) = Inr vd"
    by (auto split: option.splits)
  from Cons.IH[OF rest] l show ?case
    by (auto simp: AList.dom_update)
qed

lemma read_var_dict_fails:
  "\<exists>v\<in>set vs. long_name v = None \<Longrightarrow> read_var_dict vs m = Inl AttributeError"
  by (induction vs arbitrary: m) (auto split: option.splits)

lemma grid_index_bound:
  assumes "i < (T::nat)" "j < La" "k < Lo"
  shows "(i * La + j) * Lo + k < T * La * Lo"
  using grid_index_less[OF grid_index_less[OF assms(1,2)] assms(3)] .

lemma loaded_column:
  assumes init: "DataSet_init fs filename = Inr self" and f: "fs filename = Some ds"
    and ax: "coordinate_axis ds ''time'' = Inr tm" "coordinate_axis ds ''lat'' = Inr la"
            "coordinate_axis ds ''lon'' = Inr lo"
    and d: "df self = Some dfl" and c: "c \<in> set (data_columns (var_dict self))"
  shows "\<exists>v. variable_of ds (var_dict self) c = Inr v \<and>
             map (\<lambda>r. cell_of (columns dfl) r c) (rows dfl) = map Num (flatten (var_data v))"
proof -
  let ?vd = "var_dict self"
  let ?n = "length tm * length la * length lo"
  note t = loaded_table[OF init f ax]
  from t(3) c obtain fl where fl: "variable_values ds ?vd c = Inr fl" "length fl = ?n"
    by blast
  then obtain v where v: "variable_of ds ?vd c = Inr v" "fl = flatten (var_data v)"
    by (auto simp: variable_values_def split: sum.splits)
  have cd: "column_data ds ?vd c = fl" using fl by (simp add: column_data_def)
  from t(2) c have c2: "c \<notin> set [''time'', ''lat'', ''lon'']" by blast
  from d t(1) have dfl:
    "dfl = \<lparr>columns = ''time'' # ''lat'' # ''lon'' # data_columns ?vd,
            rows = concat (map (\<lambda>i. concat (map (\<lambda>j. map (\<lambda>k.
                            grid_row ds ?vd tm la lo i j k)
                          [0..<length lo]) [0..<length la])) [0..<length tm])\<rparr>"
    by simp
  have "map (\<lambda>r. cell_of (columns dfl) r c) (rows dfl) =
        concat (map (\<lambda>i. concat (map (\<lambda>j. map (\<lambda>k.
            Num (fl ! ((i * length la + j) * length lo + k)))
          [0..<length lo]) [0..<length la])) [0..<length tm])"
    unfolding dfl by (simp add: map_concat comp_def cell_of_grid_row_data[OF c c2] cd)
  also have "\<dots> = map (\<lambda>p. Num (fl ! p)) [0..<?n]"
    by (rule map_grid[symmetric])
  also have "\<dots> = map Num (map (\<lambda>p. fl ! p) [0..<length fl])"
    by (simp add: fl(2))
  also have "\<dots> = map Num fl"
    by (simp only: map_nth)
  finally show ?thesis using v by blast
qed

lemma ds_getitem_missing:
  "\<forall>v\<in>set (variables ds). var_name v \<noteq> n \<Longrightarrow> ds_getitem ds n = Inl IndexError"
proof -
  assume "\<forall>v\<in>set (variables ds). var_name v \<noteq> n"
  then have "find (\<lambda>v. var_name v = n) (variables ds) = None"
    by (simp add: find_None_iff)
  then show ?thesis by (simp add: ds_getitem_def)
qed

subsection \<open>Construction\<close>

text \<open>
  C9. Constructing a \<open>DataSet\<close> from a path that cannot be opened (\<open>nc.Dataset\<close> raises
  \<open>IOError\<close>: no file, unreadable, not a netCDF file) raises \<open>NameError('IOError')\<close>.
  Constructing it from a file that opens but is malformed raises as well: a variable
  without \<open>long_name\<close> gives \<open>AttributeError\<close>; a file without a variable \<open>time\<close>, \<open>lat\<close> or
  \<open>lon\<close>, or with a data variable whose number of values is not the number of grid points,
  gives an exception too. In every case the constructor either raises, and the caller
  gets no object, or returns an object with its table and its coordinate sets in place.
\<close>

theorem DataSet_init_fails:
  "(fs filename = None \<longrightarrow> DataSet_init fs filename = Inl NameError) \<and>
   (fs filename = Some ds \<and> (\<exists>v\<in>set (variables ds). long_name v = None) \<longrightarrow>
      DataSet_init fs filename = Inl AttributeError) \<and>
   (fs filename = Some ds \<and>
      (\<exists>n\<in>{''time'', ''lat'', ''lon''}. \<forall>v\<in>set (variables ds). var_name v \<noteq> n) \<longrightarrow>
      (\<exists>e. DataSet_init fs filename = Inl e)) \<and>
   (fs filename = Some ds \<and> read_var_dict (variables ds) [] = Inr vd \<and>
      coordinate_axis ds ''time'' = Inr tm \<and> coordinate_axis ds ''lat'' = Inr la \<and>
      coordinate_axis ds ''lon'' = Inr lo \<and> c \<in> set (data_columns vd) \<and>
      variable_values ds vd c = Inr fl \<and> length fl \<noteq> length tm * length la * length lo \<longrightarrow>
      (\<exists>e. DataSet_init fs filename = Inl e)) \<and>
   ((\<exists>e. DataSet_init fs filename = Inl e) \<or>
    (\<exists>self dfl. DataSet_init fs filename = Inr self \<and> df self = Some dfl \<and>
       lat_set self = fst (create_coords dfl) \<and> lon_set self = snd (create_coords dfl)))"
proof (intro conjI impI)
  assume "fs filename = None"
  then show "DataSet_init fs filename = Inl NameError"
    by (simp add: DataSet_init_def)
next
  assume "fs filename = Some ds \<and> (\<exists>v\<in>set (variables ds). long_name v = None)"
  then show "DataSet_init fs filename = Inl AttributeError"
    by (simp add: DataSet_init_def read_var_dict_fails)
next
  assume a: "fs filename = Some ds \<and>
      (\<exists>n\<in>{''time'', ''lat'', ''lon''}. \<forall>v\<in>set (variables ds). var_name v \<noteq> n)"
  then obtain n where n: "n \<in> {''time'', ''lat'', ''lon''}" "ds_getitem ds n = Inl IndexError"
    using ds_getitem_missing by blast
  then have c: "\<exists>e. convert2dataframe ds vd' = Inl e" for vd'
    by (auto simp: convert2dataframe_def split: sum.splits)
  show "\<exists>e. DataSet_init fs filename = Inl e"
  proof (cases "read_var_dict (variables ds) []")
    case (Inl e)
    with a show ?thesis by (simp add: DataSet_init_def)
  next
    case (Inr vd')
    from c[of vd'] obtain e where "convert2dataframe ds vd' = Inl e" ..
    with a Inr show ?thesis by (simp add: DataSet_init_def)
  qed
next
  assume a: "fs filename = Some ds \<and> read_var_dict (variables ds) [] = Inr vd \<and>
      coordinate_axis ds ''time'' = Inr tm \<and> coordinate_axis ds ''lat'' = Inr la \<and>
      coordinate_axis ds ''lon'' = Inr lo \<and> c \<in> set (data_columns vd) \<and>
      variable_values ds vd c = Inr fl \<and> length fl \<noteq> length tm * length la * length lo"
  show "\<exists>e. DataSet_init fs filename = Inl e"
  proof (cases "DataSet_init fs filename")
    case (Inl e)
    then show ?thesis by blast
  next
    case (Inr self)
    from a have f: "fs filename = Some ds" and ax: "coordinate_axis ds ''time'' = Inr tm"
      "coordinate_axis ds ''lat'' = Inr la" "coordinate_axis ds ''lon'' = Inr lo"
      by simp_all
    from loaded_table(4)[OF Inr f ax] a have "var_dict self = vd" by simp
    with loaded_table(3)[OF Inr f ax] a show ?thesis by auto
  qed
next
  show "(\<exists>e. DataSet_init fs filename = Inl e) \<or>
    (\<exists>self dfl. DataSet_init fs filename = Inr self \<and> df self = Some dfl \<and>
       lat_set self = fst (create_coords dfl) \<and> lon_set self = snd (create_coords dfl))"
  proof (cases "DataSet_init fs filename")
    case (Inl e)
    then show ?thesis by blast
  next
    case (Inr self)
    from DataSet_init_table[OF Inr] Inr show ?thesis by auto
  qed
qed

theorem DataSet_init_fails_witness:
  "example_fs ''missing.nc4'' = None \<and>
   DataSet_init example_fs ''missing.nc4'' = Inl NameError \<and>
   long_name (last (variables unnamed_variable_file)) = None \<and>
   DataSet_init (\<lambda>f. Some unnamed_variable_file) ''day.nc4'' = Inl AttributeError \<and>
   map var_name (variables no_lat_file) = [''time''] \<and>
   DataSet_init (\<lambda>f. Some no_lat_file) ''day.nc4'' = Inl IndexError \<and>
   variable_values short_variable_file
       [(''time'', ''time''), (''latitude'', ''lat''), (''longitude'', ''lon''),
        (''total_precipitation'', ''PRECTOT''), (''surface_air_temperature'', ''TLML'')]
       ''surface_air_temperature'' = Inr [280, 281] \<and>
   DataSet_init (\<lambda>f. Some short_variable_file) ''day.nc4'' = Inl ValueError"
  using DataSet_init_fails [of example_fs "''missing.nc4''"]
    DataSet_init_fails [of "\<lambda>f. Some unnamed_variable_file" "''day.nc4''" unnamed_variable_file]
    DataSet_init_fails [of "\<lambda>f. Some no_lat_file" "''day.nc4''" no_lat_file]
    DataSet_init_fails [of "\<lambda>f. Some short_variable_file" "''day.nc4''" short_variable_file]
    rejected_files
  by (simp add: example_fs_def)
     (simp add: unnamed_variable_file_def no_lat_file_def short_variable_file_def example_file_def
        variable_values_def variable_of_def ds_getitem_def)

text \<open>
  C3, as the code has it. Construction builds the table with one row per element of the
  product of the three axes, in product order: the row at position
  \<open>(i * |lat| + j) * |lon| + k\<close> starts with \<open>time[i]\<close>, \<open>lat[j]\<close>, \<open>lon[k]\<close>. Every long name
  of a variable of the file, other than \<open>longitude\<close>, \<open>latitude\<close> and \<open>time\<close> (the long names
  of the coordinate axes), is the label of a column; the column holds the values of the
  variable that the variables dictionary has under that long name, flattened, so in the
  same product order as the rows.
\<close>

theorem constructed_table_product_order:
  assumes init: "DataSet_init fs filename = Inr self" and f: "fs filename = Some ds"
    and ax: "coordinate_axis ds ''time'' = Inr tm" "coordinate_axis ds ''lat'' = Inr la"
            "coordinate_axis ds ''lon'' = Inr lo"
  shows "\<exists>dfl. df self = Some dfl \<and>
           columns dfl = [''time'', ''lat'', ''lon''] @ data_columns (var_dict self) \<and>
           length (rows dfl) = length tm * length la * length lo \<and>
           (\<forall>i<length tm. \<forall>j<length la. \<forall>k<length lo.
              take 3 (rows dfl ! ((i * length la + j) * length lo + k)) =
                [Num (tm ! i), Num (la ! j), Num (lo ! k)]) \<and>
           (\<forall>v\<in>set (variables ds). \<forall>l.
              long_name v = Some l \<and> l \<notin> {''longitude'', ''latitude'', ''time''} \<longrightarrow>
              l \<in> set (columns dfl)) \<and>
           (\<forall>c\<in>set (data_columns (var_dict self)).
              \<exists>v. variable_of ds (var_dict self) c = Inr v \<and>
                  map (\<lambda>r. cell_of (columns dfl) r c) (rows dfl) = map Num (flatten (var_data v)))"
proof -
  let ?vd = "var_dict self"
  let ?n = "length tm * length la * length lo"
  let ?F = "\<lambda>p. map Num (from_product tm la lo ! p)
                 @ map (\<lambda>c. Num (column_data ds ?vd c ! p)) (data_columns ?vd)"
  from DataSet_init_table[OF init] obtain ds' tm' la' lo' dfl where
    t: "fs filename = Some ds'" "read_var_dict (variables ds') [] = Inr ?vd"
       "coordinate_axis ds' ''time'' = Inr tm'" "coordinate_axis ds' ''lat'' = Inr la'"
       "coordinate_axis ds' ''lon'' = Inr lo'" "df self = Some dfl"
       "dfl = \<lparr>columns = [''time'', ''lat'', ''lon''] @ data_columns ?vd,
               rows = map (\<lambda>i. map Num (from_product tm' la' lo' ! i)
                                  @ map (\<lambda>k. Num (column_data ds' ?vd k ! i)) (data_columns ?vd))
                        [0..<length (from_product tm' la' lo')]\<rparr>"
    by blast
  from t(1,3-5) f ax have same: "ds' = ds" "tm' = tm" "la' = la" "lo' = lo"
    by simp_all
  note d = t(6)
  have cols: "columns dfl = [''time'', ''lat'', ''lon''] @ data_columns ?vd"
    unfolding t(7) by simp
  have rws: "rows dfl = map ?F [0..<?n]"
    unfolding t(7) same by (simp add: length_from_product)
  have vd: "read_var_dict (variables ds) [] = Inr ?vd"
    using t(2) same by simp
  have len: "length (rows dfl) = ?n" by (simp add: rws)
  have pos: "take 3 (rows dfl ! ((i * length la + j) * length lo + k)) =
               [Num (tm ! i), Num (la ! j), Num (lo ! k)]"
    if "i < length tm" "j < length la" "k < length lo" for i j k
    using grid_index_bound[OF that] by (simp add: rws nth_from_product[OF that])
  have names: "l \<in> set (columns dfl)"
    if "v \<in> set (variables ds)" "long_name v = Some l"
       "l \<notin> {''longitude'', ''latitude'', ''time''}" for v l
  proof -
    from read_var_dict_keys[OF vd] that(1,2) have "l \<in> fst ` set ?vd" by auto
    with that(3) show ?thesis by (simp add: cols data_columns_def)
  qed
  from d cols len pos names loaded_column[OF init f ax d] show ?thesis
    by blast
qed

theorem constructed_table_product_order_witness:
  "DataSet_init example_fs ''day1.nc4'' = Inr example_DataSet \<and>
   example_fs ''day1.nc4'' = Some example_file \<and>
   coordinate_axis example_file ''time'' = Inr [0, 1] \<and>
   coordinate_axis example_file ''lat'' = Inr [32.5, 35] \<and>
   coordinate_axis example_file ''lon'' = Inr [35, 40] \<and>
   (\<exists>dfl. df example_DataSet = Some dfl \<and>
      columns dfl = [''time'', ''lat'', ''lon'', ''total_precipitation''] \<and>
      length (rows dfl) = 8 \<and>
      take 3 (rows dfl ! 5) = [Num 1, Num 32.5, Num 40] \<and>
      map (\<lambda>r. cell_of (columns dfl) r ''total_precipitation'') (rows dfl) =
        map Num [1, 2, 3, 4, 5, 6, 7, 8])"
proof -
  have f: "example_fs ''day1.nc4'' = Some example_file"
    by (simp add: example_fs_def)
  from constructed_table_product_order [OF example_loaded(1) f example_axes]
  obtain dfl where d: "df example_DataSet = Some dfl"
    and c: "columns dfl = [''time'', ''lat'', ''lon''] @ data_columns (var_dict example_DataSet)"
    and l: "length (rows dfl) = length [0, 1 :: real] * length [32.5, 35 :: real] * length [35, 40 :: real]"
    and p: "\<forall>i<length [0, 1 :: real]. \<forall>j<length [32.5, 35 :: real]. \<forall>k<length [35, 40 :: real].
              take 3 (rows dfl ! ((i * length [32.5, 35 :: real] + j) * length [35, 40 :: real] + k)) =
                [Num ([0, 1] ! i), Num ([32.5, 35] ! j), Num ([35, 40] ! k)]"
    and v: "\<forall>c\<in>set (data_columns (var_dict example_DataSet)).
              \<exists>v. variable_of example_file (var_dict example_DataSet) c = Inr v \<and>
                  map (\<lambda>r. cell_of (columns dfl) r c) (rows dfl) = map Num (flatten (var_data v))"
    by blast
  have dc: "data_columns (var_dict example_DataSet) = [''total_precipitation'']"
    by (simp add: data_columns_def example_DataSet_def)
  have "(1 * length [32.5, 35 :: real] + 0) * length [35, 40 :: real] + 1 = (5::nat)"
    by simp
  with p[rule_format, of 1 0 1] have "take 3 (rows dfl ! 5) = [Num 1, Num 32.5, Num 40]"
    by (simp del: One_nat_def)
  moreover from v dc example_variable
  have "map (\<lambda>r. cell_of (columns dfl) r ''total_precipitation'') (rows dfl) =
        map Num [1, 2, 3, 4, 5, 6, 7, 8]"
    by simp
  ultimately show ?thesis
    using d c l dc f example_loaded(1) example_axes by simp
qed

text \<open>
  C3 as stated, a column for every variable other than the three axes, does not hold:
  the columns go by long name, so two variables with the same long name share one
  column, which holds the values of the later one.
\<close>

theorem constructed_table_columns_counterexample:
  "DataSet_init (\<lambda>f. Some shared_name_file) ''day.nc4'' = Inr shared_name_DataSet \<and>
   map var_name (filter (\<lambda>v. var_name v \<notin> {''time'', ''lat'', ''lon''}) (variables shared_name_file)) =
     [''PRECTOT'', ''PRECTOTCORR''] \<and>
   df shared_name_DataSet =
     Some \<lparr>columns = [''time'', ''lat'', ''lon'', ''total_precipitation''],
           rows = [[Num 0, Num 32.5, Num 35, Num 3], [Num 0, Num 32.5, Num 40, Num 4]]\<rparr>"
  by (simp add: shared_name_loaded) (simp add: shared_name_file_def shared_name_DataSet_def)

subsection \<open>Queries on one \<open>DataSet\<close>\<close>

text \<open>
  C4. For every \<open>DataSet\<close>, if \<open>lat\<close> is not in the set of valid latitudes or \<open>lon\<close> is not
  in the set of valid longitudes, \<open>coord_timeseries(lat, lon, vars)\<close> returns the empty
  table \<open>pd.DataFrame()\<close>, which has no rows, and raises nothing.
\<close>

theorem coord_timeseries_invalid_empty:
  "lat \<notin> lat_set self \<or> lon \<notin> lon_set self \<Longrightarrow>
   coord_timeseries self lat lon var_long = Inr empty_df \<and> rows empty_df = []"
  by (auto simp: coord_timeseries_def empty_df_def)

theorem coord_timeseries_invalid_empty_witness:
  "10 \<notin> lat_set example_DataSet \<and> 35 \<in> lon_set example_DataSet \<and>
   coord_timeseries example_DataSet 10 35 [''total_precipitation''] = Inr empty_df \<and>
   rows empty_df = []"
  using coord_timeseries_invalid_empty [of 10 example_DataSet 35 "[''total_precipitation'']"]
  by (simp add: example_DataSet_def)




text \<open>
  C10. \<open>release()\<close> sets the table to \<open>None\<close>. After it, \<open>coord_timeseries\<close> with coordinates
  in the valid sets and \<open>time_slice\<close> with any time raise (\<open>AttributeError\<close>, from
  \<open>None.loc\<close>) instead of returning an empty table, while \<open>get_dim_dict\<close> and
  \<open>get_var_dict\<close> return what they returned before.
\<close>

theorem release_then_query_raises:
  "df (release self) = None \<and>
   (lat \<in> lat_set self \<and> lon \<in> lon_set self \<longrightarrow>
      coord_timeseries (release self) lat lon var_long = Inl AttributeError) \<and>
   time_slice np_eq (release self) time v = Inl AttributeError \<and>
   get_dim_dict (release self) = get_dim_dict self \<and>
   get_var_dict (release self) = get_var_dict self"
  by (simp add: release_def coord_timeseries_def time_slice_def get_dim_dict_def get_var_dict_def)

theorem release_then_query_raises_witness:
  "32.5 \<in> lat_set example_DataSet \<and> 35 \<in> lon_set example_DataSet \<and>
   coord_timeseries (release example_DataSet) 32.5 35 [''total_precipitation''] = Inl AttributeError \<and>
   time_slice (\<lambda>d. (=)) (release example_DataSet) 0 ''total_precipitation'' = Inl AttributeError \<and>
   get_dim_dict (release example_DataSet) = [(''time'', 2), (''lat'', 2), (''lon'', 2)]"
  using release_then_query_raises [where self = example_DataSet and lat = "32.5" and lon = 35
      and var_long = "[''total_precipitation'']" and np_eq = "\<lambda>d. (=)" and time = 0
      and v = "''total_precipitation''"]
  by (simp add: example_DataSet_def get_dim_dict_def)

text \<open>
  C2, as the code has it. Take a \<open>DataSet\<close> built from a file whose latitude and longitude
  axes have no repeated value, coordinates \<open>lat\<close> and \<open>lon\<close> in its valid sets, and requested
  variables that are data columns of the table and have the shape time \<open>\<times>\<close> lat \<open>\<times>\<close> lon in the
  file. Then \<open>lat\<close> and \<open>lon\<close> are the values at some positions \<open>j\<close> and \<open>k\<close> of the axes, and
  \<open>coord_timeseries(lat, lon, vars)\<close> returns one row per entry of the time axis, in the
  order of the axis: the time value, then for each requested variable its value in the
  grid cell \<open>(i, j, k)\<close>. The number of rows is the number of distinct time values when the
  time axis has no repeated value either.
\<close>

theorem coord_timeseries_grid:
  assumes init: "DataSet_init fs filename = Inr self" and f: "fs filename = Some ds"
    and ax: "coordinate_axis ds ''time'' = Inr tm" "coordinate_axis ds ''lat'' = Inr la"
            "coordinate_axis ds ''lon'' = Inr lo"
    and dist: "distinct la" "distinct lo"
    and valid: "lat \<in> lat_set self" "lon \<in> lon_set self"
    and vars: "set var_long \<subseteq> set (data_columns (var_dict self))"
    and shape: "\<forall>c\<in>set var_long. \<exists>v. variable_of ds (var_dict self) c = Inr v \<and>
                  has_shape (var_data v) [length tm, length la, length lo]"
  shows "\<exists>j k res.
           j < length la \<and> la ! j = lat \<and> k < length lo \<and> lo ! k = lon \<and>
           coord_timeseries self lat lon var_long = Inr res \<and>
           columns res = ''time'' # var_long \<and>
           length (rows res) = length tm \<and>
           (distinct tm \<longrightarrow> length (rows res) = card (set tm)) \<and>
           rows res = map (\<lambda>i. Num (tm ! i)
                               # map (\<lambda>c. Num (the (grid_cell ds (var_dict self) c i j k))) var_long)
                        [0..<length tm] \<and>
           (\<forall>c\<in>set var_long. \<forall>i<length tm. grid_cell ds (var_dict self) c i j k \<noteq> None)"
proof -
  let ?vd = "var_dict self"
  let ?cols = "''time'' # ''lat'' # ''lon'' # data_columns ?vd"
  let ?R = "grid_row ds ?vd tm la lo"
  let ?rows = "concat (map (\<lambda>i. concat (map (\<lambda>j. map (\<lambda>k. ?R i j k) [0..<length lo])
                                             [0..<length la])) [0..<length tm])"
  from loaded_coord_sets(1)[OF init f ax valid(1)] obtain j where
    j: "j < length la" "la ! j = lat"
    unfolding in_set_conv_nth by blast
  from loaded_coord_sets(2)[OF init f ax valid(2)] obtain k where
    k: "k < length lo" "lo ! k = lon"
    unfolding in_set_conv_nth by blast
  have tbl: "df self = Some \<lparr>columns = ?cols, rows = ?rows\<rparr>"
    using loaded_table(1)[OF init f ax] by simp
  have disj: "set [''time'', ''lat'', ''lon''] \<inter> set (data_columns ?vd) = {}"
    by (rule loaded_table(2)[OF init f ax])
  have filt: "filter (\<lambda>r. cell_of ?cols r ''lat'' = Num lat \<and> cell_of ?cols r ''lon'' = Num lon) ?rows =
              map (\<lambda>i. ?R i j k) [0..<length tm]"
    using dist(1) j(1) dist(2) k(1)
    by (rule filter_grid) (simp add: cell_of_grid_row j(2)[symmetric] k(2)[symmetric])
  have sub: "set (''time'' # var_long) \<subseteq> set ?cols"
    using vars by auto
  have q: "coord_timeseries self lat lon var_long =
           Inr \<lparr>columns = ''time'' # var_long,
                rows = map (\<lambda>r. map (cell_of ?cols r) (''time'' # var_long))
                         (map (\<lambda>i. ?R i j k) [0..<length tm])\<rparr>"
    using valid sub filt
    by (simp add: coord_timeseries_def tbl loc_eq_def cell_matches_exact select_columns_def)
  have cellv: "cell_of ?cols (?R i j k) c = Num (the (grid_cell ds ?vd c i j k))
               \<and> grid_cell ds ?vd c i j k \<noteq> None"
    if "c \<in> set var_long" "i < length tm" for c i
  proof -
    from that(1) vars have c1: "c \<in> set (data_columns ?vd)" by blast
    with disj have c2: "c \<notin> set [''time'', ''lat'', ''lon'']" by blast
    from shape that(1) obtain v where
      v: "variable_of ds ?vd c = Inr v" "has_shape (var_data v) [length tm, length la, length lo]"
      by blast
    from grid_cell_column_data[OF v that(2) j(1) k(1)] cell_of_grid_row_data[OF c1 c2]
    show ?thesis by simp
  qed
  have rws: "map (\<lambda>r. map (cell_of ?cols r) (''time'' # var_long)) (map (\<lambda>i. ?R i j k) [0..<length tm]) =
             map (\<lambda>i. Num (tm ! i) # map (\<lambda>c. Num (the (grid_cell ds ?vd c i j k))) var_long)
               [0..<length tm]"
    by (simp add: cell_of_grid_row cellv)
  show ?thesis
    using j k q rws cellv by (intro exI[of _ j] exI[of _ k]) (simp add: distinct_card)
qed

theorem coord_timeseries_grid_witness:
  "DataSet_init example_fs ''day1.nc4'' = Inr example_DataSet \<and>
   distinct [32.5, 35 :: real] \<and> distinct [35, 40 :: real] \<and>
   32.5 \<in> lat_set example_DataSet \<and> 35 \<in> lon_set example_DataSet \<and>
   coord_timeseries example_DataSet 32.5 35 [''total_precipitation''] =
     Inr \<lparr>columns = [''time'', ''total_precipitation''], rows = [[Num 0, Num 1], [Num 1, Num 5]]\<rparr> \<and>
   length [[Num 0, Num 1], [Num 1, Num 5]] = card (set [0, 1 :: real])"
proof -
  have h: "example_fs ''day1.nc4'' = Some example_file"
    "distinct [32.5, 35 :: real]" "distinct [35, 40 :: real]"
    "32.5 \<in> lat_set example_DataSet" "35 \<in> lon_set example_DataSet"
    "set [''total_precipitation''] \<subseteq> set (data_columns (var_dict example_DataSet))"
    by (simp_all add: example_fs_def example_DataSet_def data_columns_def)
  have sh: "\<forall>c\<in>set [''total_precipitation''].
              \<exists>v. variable_of example_file (var_dict example_DataSet) c = Inr v \<and>
                  has_shape (var_data v) [length [0, 1 :: real], length [32.5, 35 :: real],
                                          length [35, 40 :: real]]"
    by (simp add: example_variable)
  from coord_timeseries_grid [OF example_loaded(1) h(1) example_axes h(2-6) sh]
  obtain res where
    "coord_timeseries example_DataSet 32.5 35 [''total_precipitation''] = Inr res"
    "distinct [0, 1 :: real] \<longrightarrow> length (rows res) = card (set [0, 1 :: real])"
    by blast
  with example_queries(1) example_loaded(1) h show ?thesis
    by simp
qed

text \<open>
  C2 as stated, for every loaded \<open>DataSet\<close>, does not hold: on a file whose latitude axis
  is \<open>[32.5, 32.5]\<close> and whose only time value is \<open>0\<close>, the query at \<open>(32.5, 35)\<close> returns two
  rows.
\<close>

theorem coord_timeseries_rows_counterexample:
  "DataSet_init (\<lambda>f. Some repeated_lat_file) ''day.nc4'' = Inr repeated_lat_DataSet \<and>
   coordinate_axis repeated_lat_file ''time'' = Inr [0] \<and>
   32.5 \<in> lat_set repeated_lat_DataSet \<and> 35 \<in> lon_set repeated_lat_DataSet \<and>
   coord_timeseries repeated_lat_DataSet 32.5 35 [''total_precipitation''] =
     Inr \<lparr>columns = [''time'', ''total_precipitation''], rows = [[Num 0, Num 1], [Num 0, Num 2]]\<rparr> \<and>
   length [[Num 0, Num 1], [Num 0, Num 2]] \<noteq> card (set [0 :: real])"
  by (simp add: repeated_lat_loaded)
     (simp add: coordinate_axis_def ds_getitem_def repeated_lat_file_def repeated_lat_DataSet_def
        coord_timeseries_def loc_eq_def cell_matches_exact select_columns_def cell_of_def)

subsection \<open>Queries over a list of files\<close>

text \<open>
  C1, as the code has it. When the constructor fails for a file \<open>f\<close> of the list that is
  not in the cache when its turn comes (the files before it having been processed
  normally), \<open>_load_dataset\<close> catches the constructor's exception and returns; nothing
  is put in the cache for \<open>f\<close>. The lookup \<open>self.ds_dict[f]\<close> that follows raises
  \<open>KeyError\<close>, which ends \<open>time_series\<close> and \<open>time_slice_daily\<close> alike: the files after \<open>f\<close>
  are not processed and the rows accumulated so far are not returned. The cache is as
  the files before \<open>f\<close> left it.
\<close>

theorem failed_load_aborts_query:
  assumes "DataSet_init fs f = Inl e"
  shows "(time_series fs self pre lat lon vl cache False = (Inr (Frame r), self') \<and>
            f \<notin> fst ` set (ds_dict self') \<longrightarrow>
          time_series fs self (pre @ f # post) lat lon vl cache as_numpy =
            (Inl KeyError, self'\<lparr>load_log := load_log self' @ [f]\<rparr>) \<and>
          map_of (ds_dict (self'\<lparr>load_log := load_log self' @ [f]\<rparr>)) f = None) \<and>
         (time_slice_daily np_eq fs self pre t v cache = (Inr r', self'') \<and>
            f \<notin> fst ` set (ds_dict self'') \<longrightarrow>
          time_slice_daily np_eq fs self (pre @ f # post) t v cache =
            (Inl KeyError, self''\<lparr>load_log := load_log self'' @ [f]\<rparr>) \<and>
          map_of (ds_dict (self''\<lparr>load_log := load_log self'' @ [f]\<rparr>)) f = None)"
proof (intro conjI impI)
  assume a: "time_series fs self pre lat lon vl cache False = (Inr (Frame r), self') \<and>
            f \<notin> fst ` set (ds_dict self')"
  then have pre: "time_series_loop fs lat lon vl cache pre empty_df self = (Inr r, self')"
    by (auto simp: time_series_def split: prod.splits sum.splits)
  from a have l: "load_if_absent fs f self' = self'\<lparr>load_log := load_log self' @ [f]\<rparr>"
    using assms by (simp add: load_if_absent_fails)
  from a show "map_of (ds_dict (self'\<lparr>load_log := load_log self' @ [f]\<rparr>)) f = None"
    by (simp add: map_of_None_keys)
  then show "time_series fs self (pre @ f # post) lat lon vl cache as_numpy =
            (Inl KeyError, self'\<lparr>load_log := load_log self' @ [f]\<rparr>)"
    by (simp add: time_series_def time_series_loop_append pre l Let_def)
next
  assume a: "time_slice_daily np_eq fs self pre t v cache = (Inr r', self'') \<and>
            f \<notin> fst ` set (ds_dict self'')"
  then have pre: "time_slice_daily_loop np_eq fs t v cache pre empty_df self = (Inr r', self'')"
    by (simp add: time_slice_daily_def)
  from a have l: "load_if_absent fs f self'' = self''\<lparr>load_log := load_log self'' @ [f]\<rparr>"
    using assms by (simp add: load_if_absent_fails)
  from a show "map_of (ds_dict (self''\<lparr>load_log := load_log self'' @ [f]\<rparr>)) f = None"
    by (simp add: map_of_None_keys)
  then show "time_slice_daily np_eq fs self (pre @ f # post) t v cache =
            (Inl KeyError, self''\<lparr>load_log := load_log self'' @ [f]\<rparr>)"
    by (simp add: time_slice_daily_def time_slice_daily_loop_append pre l Let_def)
qed

theorem failed_load_aborts_query_witness:
  "DataSet_init example_fs ''missing.nc4'' = Inl NameError \<and>
   ''missing.nc4'' \<notin> fst ` set (ds_dict example_loader) \<and>
   time_series example_fs DataLoader_init [''day1.nc4'', ''missing.nc4'', ''day2.nc4''] 32.5 35
       [''total_precipitation''] True False =
     (Inl KeyError, example_loader\<lparr>load_log := [''day1.nc4'', ''missing.nc4'']\<rparr>) \<and>
   time_slice_daily (\<lambda>d. (=)) example_fs DataLoader_init [''day1.nc4'', ''missing.nc4'', ''day2.nc4''] 0
       ''total_precipitation'' True =
     (Inl KeyError, example_loader\<lparr>load_log := [''day1.nc4'', ''missing.nc4'']\<rparr>)"
  using failed_load_aborts_query [OF example_loaded(3), where self = DataLoader_init
      and pre = "[''day1.nc4'']" and lat = "32.5" and lon = 35 and vl = "[''total_precipitation'']"
      and cache = True and self' = example_loader and post = "[''day2.nc4'']" and as_numpy = False
      and np_eq = "\<lambda>d. (=)" and t = 0 and v = "''total_precipitation''"
      and self'' = example_loader]
    example_time_series_day1 example_time_slice_daily_day1
  by (simp add: example_loaded example_loader_def)

text \<open>
  C1 as stated does not hold: the exception that reaches the caller is not the one the
  constructor raised. For a file that cannot be opened the constructor raises
  \<open>NameError\<close>, and the query raises \<open>KeyError\<close>.
\<close>

theorem failed_load_error_counterexample:
  "DataSet_init example_fs ''missing.nc4'' = Inl NameError \<and>
   fst (time_series example_fs DataLoader_init [''missing.nc4''] 32.5 35
          [''total_precipitation''] True False) = Inl KeyError \<and>
   fst (time_series example_fs DataLoader_init [''missing.nc4''] 32.5 35
          [''total_precipitation''] True False) \<noteq> Inl NameError"
  by (simp add: example_loaded time_series_def DataLoader_init_def load_if_absent_def
      load_dataset_def)

text \<open>
  C6. When \<open>time_series\<close> or \<open>time_slice_daily\<close> is called with \<open>cache=False\<close> and returns
  normally, the cache has no entry for any file of the list afterwards, whether the entry
  was there before the call or not.
\<close>

theorem uncached_query_evicts:
  "(time_series fs self files lat lon vl False as_numpy = (Inr q, self') \<longrightarrow>
      (\<forall>f\<in>set files. map_of (ds_dict self') f = None)) \<and>
   (time_slice_daily np_eq fs self files t v False = (Inr r, self'') \<longrightarrow>
      (\<forall>f\<in>set files. map_of (ds_dict self'') f = None))"
proof (intro conjI impI ballI)
  fix f
  assume "time_series fs self files lat lon vl False as_numpy = (Inr q, self')" and f: "f \<in> set files"
  then obtain res where "time_series_loop fs lat lon vl False files empty_df self = (Inr res, self')"
    by (auto simp: time_series_def split: prod.splits sum.splits)
  from time_series_loop_evicts[OF this] f show "map_of (ds_dict self') f = None"
    by (simp add: map_of_None_keys)
next
  fix f
  assume "time_slice_daily np_eq fs self files t v False = (Inr r, self'')" and f: "f \<in> set files"
  then have "time_slice_daily_loop np_eq fs t v False files empty_df self = (Inr r, self'')"
    by (simp add: time_slice_daily_def)
  from time_slice_daily_loop_evicts[OF this] f show "map_of (ds_dict self'') f = None"
    by (simp add: map_of_None_keys)
qed

theorem uncached_query_evicts_witness:
  "map_of (ds_dict example_loader) ''day1.nc4'' = Some example_DataSet \<and>
   time_series example_fs example_loader [''day1.nc4'', ''day2.nc4''] 32.5 35
       [''total_precipitation''] False False =
     (Inr (Frame \<lparr>columns = [''time'', ''total_precipitation''],
                   rows = [[Num 0, Num 1], [Num 1, Num 5], [Num 0, Num 1], [Num 1, Num 5]]\<rparr>),
      \<lparr>ds_dict = [], load_log = [''day1.nc4'', ''day2.nc4'']\<rparr>) \<and>
   map_of (ds_dict (snd (time_series example_fs example_loader [''day1.nc4'', ''day2.nc4''] 32.5 35
       [''total_precipitation''] False False))) ''day1.nc4'' = None \<and>
   map_of (ds_dict (snd (time_slice_daily (\<lambda>d. (=)) example_fs example_loader [''day1.nc4''] 0
       ''total_precipitation'' False))) ''day1.nc4'' = None"
  using uncached_query_evicts [where fs = example_fs and self = example_loader
      and files = "[''day1.nc4'', ''day2.nc4'']" and lat = "32.5" and lon = 35
      and vl = "[''total_precipitation'']" and as_numpy = False and np_eq = "\<lambda>d. (=)"
      and t = 0 and v = "''total_precipitation''"]
    example_uncached_time_series example_uncached_time_slice_daily
  by (simp add: example_loader_def)

text \<open>
  C7. The cache holds at most one \<open>DataSet\<close> per file name: the keys of \<open>ds_dict\<close> are
  distinct in a new loader and stay distinct through every query, cached or not. With
  \<open>cache=True\<close> the constructor is called only for files of
  the list that were not in the cache when the call began, and once for each: the names
  added to the load log are distinct and none of them was cached. After a call that
  returned normally, asking for the same files again (with \<open>cache=True\<close>, whatever the
  other arguments) calls the constructor for none of them.
\<close>

theorem cached_query_loads_once:
  assumes "distinct (map fst (ds_dict self))"
    and "time_series fs self files lat lon vl True as_numpy = (x, self')"
  shows "distinct (map fst (ds_dict DataLoader_init)) \<and>
         distinct (map fst (ds_dict (snd (time_series fs self files lat lon vl cache as_numpy)))) \<and>
         distinct (map fst (ds_dict (snd (time_slice_daily np_eq fs self files t v cache)))) \<and>
         (\<exists>new. load_log self' = load_log self @ new \<and> distinct new \<and>
                set new \<subseteq> set files - fst ` set (ds_dict self)) \<and>
         ((\<exists>q. x = Inr q) \<longrightarrow>
            load_log (snd (time_series fs self' files lat' lon' vl' True as_numpy')) = load_log self')"
proof -
  obtain y where loop: "time_series_loop fs lat lon vl True files empty_df self = (y, self')"
    and xy: "(\<exists>q. x = Inr q) \<longleftrightarrow> (\<exists>r. y = Inr r)"
    using assms(2) by (auto simp: time_series_def split: prod.splits sum.splits)
  have d: "distinct (map fst (ds_dict DataLoader_init))"
    "distinct (map fst (ds_dict (snd (time_series fs self files lat lon vl cache as_numpy))))"
    "distinct (map fst (ds_dict (snd (time_slice_daily np_eq fs self files t v cache))))"
    using time_series_loop_distinct[OF assms(1), of fs lat lon vl cache files empty_df]
      time_slice_daily_loop_distinct[OF assms(1), of np_eq fs t v cache files empty_df]
    by (simp_all add: DataLoader_init_def time_series_snd time_slice_daily_def prod_eq_iff)
  from time_series_loop_log[OF loop] obtain new where
    n: "load_log self' = load_log self @ new" "distinct new"
       "set new \<subseteq> set files - fst ` set (ds_dict self)"
       "(\<exists>r. y = Inr r) \<longrightarrow> set files \<subseteq> fst ` set (ds_dict self')"
    by blast
  have again: "load_log (snd (time_series fs self' files lat' lon' vl' True as_numpy')) = load_log self'"
    if "\<exists>q. x = Inr q"
  proof -
    obtain z s where l2: "time_series_loop fs lat' lon' vl' True files empty_df self' = (z, s)"
      by (cases "time_series_loop fs lat' lon' vl' True files empty_df self'")
    from n(4) that xy have sub: "set files \<subseteq> fst ` set (ds_dict self')"
      by blast
    from time_series_loop_log[OF l2] obtain new' where
      l: "load_log s = load_log self' @ new'" and
      m: "set new' \<subseteq> set files - fst ` set (ds_dict self')"
      by blast
    from sub have "set files - fst ` set (ds_dict self') = {}" by auto
    with l m have "load_log s = load_log self'"
      by simp
    with l2 show ?thesis
      by (auto simp: time_series_def split: prod.splits sum.splits)
  qed
  from d n again show ?thesis by blast
qed

theorem cached_query_loads_once_witness:
  "distinct (map fst (ds_dict DataLoader_init)) \<and>
   time_series example_fs DataLoader_init [''day1.nc4''] 32.5 35 [''total_precipitation''] True False =
     (Inr (Frame \<lparr>columns = [''time'', ''total_precipitation''], rows = [[Num 0, Num 1], [Num 1, Num 5]]\<rparr>),
      example_loader) \<and>
   distinct (map fst (ds_dict (snd (time_series example_fs DataLoader_init [''day1.nc4''] 32.5 35
       [''total_precipitation''] True False)))) \<and>
   load_log example_loader = [''day1.nc4''] \<and>
   load_log (snd (time_series example_fs example_loader [''day1.nc4''] 35 40 [] True True)) =
     [''day1.nc4'']"
  using cached_query_loads_once [where self = DataLoader_init and fs = example_fs
      and files = "[''day1.nc4'']" and lat = "32.5" and lon = 35 and vl = "[''total_precipitation'']"
      and as_numpy = False and self' = example_loader and lat' = 35 and lon' = 40 and vl' = "[]"
      and as_numpy' = True and np_eq = "\<lambda>d. (=)" and cache = True and t = 0
      and v = "''total_precipitation''"]
    example_time_series_day1
  by (simp add: DataLoader_init_def example_loader_def)

text \<open>
  C8. The result of \<open>time_series\<close> and of \<open>time_slice_daily\<close> is the concatenation of the
  per-file results in the order of the list. An empty list gives the empty frame and no
  error. The result for one file is the result of the per-file query (\<open>coord_timeseries\<close>;
  \<open>time_slice\<close> with the \<open>FileName\<close> column added) on the \<open>DataSet\<close> of that file, with its
  rows in their order. The result for a list \<open>xs @ ys\<close> has the rows of the result for \<open>xs\<close>
  followed by the rows of the result for \<open>ys\<close>, the second query starting from the loader
  as the first left it. With \<open>as_numpy=True\<close> the result is the array made from the same
  frame.
\<close>

theorem multi_file_result_concatenates:
  "time_series fs self [] lat lon vl cache False = (Inr (Frame empty_df), self) \<and>
   (time_series fs self [f] lat lon vl cache False = (Inr (Frame r), self') \<longrightarrow>
      (\<exists>d. map_of (ds_dict (load_if_absent fs f self)) f = Some d \<and>
           coord_timeseries d lat lon vl = Inr r)) \<and>
   (time_series fs self (xs @ ys) lat lon vl cache False = (Inr (Frame r), self') \<longrightarrow>
      (\<exists>ra s rb. time_series fs self xs lat lon vl cache False = (Inr (Frame ra), s) \<and>
                 time_series fs s ys lat lon vl cache False = (Inr (Frame rb), self') \<and>
                 rows r = rows ra @ rows rb)) \<and>
   (time_series fs self xs lat lon vl cache True = (Inr q, self') \<longrightarrow>
      (\<exists>ra. time_series fs self xs lat lon vl cache False = (Inr (Frame ra), self') \<and>
            q = Numpy ra)) \<and>
   time_slice_daily np_eq fs self [] t v cache = (Inr empty_df, self) \<and>
   (time_slice_daily np_eq fs self [f] t v cache = (Inr r, self') \<longrightarrow>
      (\<exists>d c. map_of (ds_dict (load_if_absent fs f self)) f = Some d \<and>
             time_slice np_eq d t v = Inr c \<and> r = set_column c ''FileName'' (Str f))) \<and>
   (time_slice_daily np_eq fs self (xs @ ys) t v cache = (Inr r, self') \<longrightarrow>
      (\<exists>ra s rb. time_slice_daily np_eq fs self xs t v cache = (Inr ra, s) \<and>
                 time_slice_daily np_eq fs s ys t v cache = (Inr rb, self') \<and>
                 rows r = rows ra @ rows rb))"
  unfolding time_series_Frame time_series_Numpy time_slice_daily_def
  using time_series_loop_single[of fs lat lon vl cache f self r self']
    time_series_loop_split[of fs lat lon vl cache xs ys self r self']
    time_slice_daily_loop_single[of np_eq fs t v cache f self r self']
    time_slice_daily_loop_split[of np_eq fs t v cache xs ys self r self']
  by simp

theorem multi_file_result_concatenates_witness:
  "time_series example_fs DataLoader_init ([''day1.nc4''] @ [''day2.nc4'']) 32.5 35
       [''total_precipitation''] True False =
     (Inr (Frame \<lparr>columns = [''time'', ''total_precipitation''],
                   rows = [[Num 0, Num 1], [Num 1, Num 5], [Num 0, Num 1], [Num 1, Num 5]]\<rparr>),
      \<lparr>ds_dict = [(''day1.nc4'', example_DataSet), (''day2.nc4'', example_DataSet)],
       load_log = [''day1.nc4'', ''day2.nc4'']\<rparr>) \<and>
   (\<exists>ra s rb.
      time_series example_fs DataLoader_init [''day1.nc4''] 32.5 35 [''total_precipitation''] True False =
        (Inr (Frame ra), s) \<and>
      time_series example_fs s [''day2.nc4''] 32.5 35 [''total_precipitation''] True False =
        (Inr (Frame rb),
         \<lparr>ds_dict = [(''day1.nc4'', example_DataSet), (''day2.nc4'', example_DataSet)],
          load_log = [''day1.nc4'', ''day2.nc4'']\<rparr>) \<and>
      [[Num 0, Num 1], [Num 1, Num 5], [Num 0, Num 1], [Num 1, Num 5]] = rows ra @ rows rb) \<and>
   (\<exists>ra s rb.
      time_slice_daily (\<lambda>d. (=)) example_fs DataLoader_init [''day1.nc4''] 0 ''total_precipitation'' True =
        (Inr ra, s) \<and>
      time_slice_daily (\<lambda>d. (=)) example_fs s [''day2.nc4''] 0 ''total_precipitation'' True =
        (Inr rb,
         \<lparr>ds_dict = [(''day1.nc4'', example_DataSet), (''day2.nc4'', example_DataSet)],
          load_log = [''day1.nc4'', ''day2.nc4'']\<rparr>) \<and>
      [[Num 32.5, Num 35, Num 1, Str ''day1.nc4''], [Num 32.5, Num 40, Num 2, Str ''day1.nc4''],
       [Num 35, Num 35, Num 3, Str ''day1.nc4''], [Num 35, Num 40, Num 4, Str ''day1.nc4''],
       [Num 32.5, Num 35, Num 1, Str ''day2.nc4''], [Num 32.5, Num 40, Num 2, Str ''day2.nc4''],
       [Num 35, Num 35, Num 3, Str ''day2.nc4''], [Num 35, Num 40, Num 4, Str ''day2.nc4'']] =
      rows ra @ rows rb)"
  using multi_file_result_concatenates [where fs = example_fs and self = DataLoader_init
      and xs = "[''day1.nc4'']" and ys = "[''day2.nc4'']" and lat = "32.5" and lon = 35
      and vl = "[''total_precipitation'']" and cache = True and np_eq = "\<lambda>d. (=)"
      and t = 0 and v = "''total_precipitation''"
      and r = "\<lparr>columns = [''time'', ''total_precipitation''],
                rows = [[Num 0, Num 1], [Num 1, Num 5], [Num 0, Num 1], [Num 1, Num 5]]\<rparr>"
      and self' = "\<lparr>ds_dict = [(''day1.nc4'', example_DataSet), (''day2.nc4'', example_DataSet)],
                     load_log = [''day1.nc4'', ''day2.nc4'']\<rparr>"]
    multi_file_result_concatenates [where fs = example_fs and self = DataLoader_init
      and xs = "[''day1.nc4'']" and ys = "[''day2.nc4'']" and lat = "32.5" and lon = 35
      and vl = "[''total_precipitation'']" and cache = True and np_eq = "\<lambda>d. (=)"
      and t = 0 and v = "''total_precipitation''"
      and r = "\<lparr>columns = [''lat'', ''lon'', ''total_precipitation'', ''FileName''],
          rows = [[Num 32.5, Num 35, Num 1, Str ''day1.nc4''], [Num 32.5, Num 40, Num 2, Str ''day1.nc4''],
                  [Num 35, Num 35, Num 3, Str ''day1.nc4''], [Num 35, Num 40, Num 4, Str ''day1.nc4''],
                  [Num 32.5, Num 35, Num 1, Str ''day2.nc4''], [Num 32.5, Num 40, Num 2, Str ''day2.nc4''],
                  [Num 35, Num 35, Num 3, Str ''day2.nc4''], [Num 35, Num 40, Num 4, Str ''day2.nc4'']]\<rparr>"
      and self' = "\<lparr>ds_dict = [(''day1.nc4'', example_DataSet), (''day2.nc4'', example_DataSet)],
                     load_log = [''day1.nc4'', ''day2.nc4'']\<rparr>"]
    example_two_days
  by simp

end
